theory Spec2Isabelle
  imports Main
begin

section \<open>JavaScript values and strings\<close>

text \<open>
  Both source files handle untyped data: the body of the request to \<^verbatim>\<open>/api/analyze\<close>, the
  JSON replies of the text-generation backend and the reply of the classification service are
  all of TypeScript type \<^verbatim>\<open>any\<close>. They are modelled by the values \<^verbatim>\<open>JSON.parse\<close> can build,
  together with \<^verbatim>\<open>undefined\<close> (the value of a missing property).

  \<^item> A string is the list of its code units; the model covers code units below 256.
  \<^item> Of a number the code only ever uses its truthiness and its rendering in a template
    literal, so \<open>JNum z s\<close> records whether the number is falsy (\<open>z\<close>: it is zero) and the
    text \<open>s\<close> that \<^verbatim>\<open>String(n)\<close> gives.
  \<^item> \<open>JObj\<close> is a plain data object, given by the list of its own properties; the first
    entry for a name is the property of that name.
\<close>

datatype jsvalue =
    JUndefined
  | JNull
  | JBool bool
  | JNum bool string
  | JStr string
  | JArr "jsvalue list"
  | JObj "(string \<times> jsvalue) list"

text \<open>Truthiness, as tested by \<^verbatim>\<open>!x\<close>, \<^verbatim>\<open>if (x)\<close> and \<^verbatim>\<open>x || y\<close>.\<close>

fun js_truthy :: "jsvalue \<Rightarrow> bool" where
  "js_truthy JUndefined = False"
| "js_truthy JNull = False"
| "js_truthy (JBool b) = b"
| "js_truthy (JNum z s) = (\<not> z)"
| "js_truthy (JStr s) = (s \<noteq> [])"
| "js_truthy (JArr xs) = True"
| "js_truthy (JObj ps) = True"

text \<open>\<^verbatim>\<open>a || b\<close>\<close>

definition js_or :: "jsvalue \<Rightarrow> jsvalue \<Rightarrow> jsvalue" where
  "js_or a b = (if js_truthy a then a else b)"

definition nullish :: "jsvalue \<Rightarrow> bool" where
  "nullish v = (v = JUndefined \<or> v = JNull)"

text \<open>
  Errors the JavaScript engine itself raises: destructuring or reading a property of
  \<^verbatim>\<open>null\<close> or \<^verbatim>\<open>undefined\<close>, calling what is not a function, and converting to a string an
  object that has no usable conversion method. The wording of their \<^verbatim>\<open>message\<close> belongs to
  the engine, so the model takes it as a parameter (\<open>tem\<close> below).
\<close>

datatype js_fault =
    CannotDestructure jsvalue
  | CannotRead jsvalue string
  | NotAFunction string
  | CannotConvert jsvalue

text \<open>\<^verbatim>\<open>Array.prototype.join\<close> on the string forms of the elements.\<close>

fun js_join :: "string \<Rightarrow> string list \<Rightarrow> string" where
  "js_join sep [] = []"
| "js_join sep [x] = x"
| "js_join sep (x # y # ys) = x @ sep @ js_join sep (y # ys)"

text \<open>
  The string a value contributes to a template literal \<^verbatim>\<open>`${v}`\<close>, or the \<^verbatim>\<open>TypeError\<close> the
  conversion throws.

  \<^item> An array is joined with commas; its elements are converted from left to right, a
    \<^verbatim>\<open>null\<close> or \<^verbatim>\<open>undefined\<close> element giving the empty string.
  \<^item> An object is converted by its \<^verbatim>\<open>toString\<close> method, then by \<^verbatim>\<open>valueOf\<close>. A plain object
    inherits a \<^verbatim>\<open>toString\<close> that gives \<^verbatim>\<open>[object Object]\<close>. An own property called
    \<^verbatim>\<open>toString\<close> hides it; as a JSON value it is not callable, and \<^verbatim>\<open>valueOf\<close>, inherited or
    own, gives no primitive value either, so the conversion throws.
\<close>

fun js_to_string :: "jsvalue \<Rightarrow> js_fault + string"
  and js_elements :: "jsvalue list \<Rightarrow> js_fault + string list"
where
  "js_to_string JUndefined = Inr ''undefined''"
| "js_to_string JNull = Inr ''null''"
| "js_to_string (JBool b) = Inr (if b then ''true'' else ''false'')"
| "js_to_string (JNum z s) = Inr s"
| "js_to_string (JStr s) = Inr s"
| "js_to_string (JArr xs) =
     (case js_elements xs of
        Inl f \<Rightarrow> Inl f
      | Inr ss \<Rightarrow> Inr (js_join '','' ss))"
| "js_to_string (JObj ps) =
     (if ''toString'' \<in> set (map fst ps) then Inl (CannotConvert (JObj ps))
      else Inr ''[object Object]'')"
| "js_elements [] = Inr []"
| "js_elements (x # xs) =
     (case (if x = JUndefined \<or> x = JNull then Inr [] else js_to_string x) of
        Inl f \<Rightarrow> Inl f
      | Inr s \<Rightarrow>
          (case js_elements xs of
             Inl f \<Rightarrow> Inl f
           | Inr ss \<Rightarrow> Inr (s # ss)))"

text \<open>
  Reading a named property \<^verbatim>\<open>v.k\<close> of a value that is neither \<^verbatim>\<open>null\<close> nor \<^verbatim>\<open>undefined\<close>.
  The names the code reads (\<^verbatim>\<open>image\<close>, \<^verbatim>\<open>symptoms\<close>, \<^verbatim>\<open>visionAnalysis\<close>, \<^verbatim>\<open>label\<close>,
  \<^verbatim>\<open>candidates\<close>, \<^verbatim>\<open>content\<close>, \<^verbatim>\<open>parts\<close>, \<^verbatim>\<open>text\<close>, \<^verbatim>\<open>error\<close>, \<^verbatim>\<open>message\<close>, \<^verbatim>\<open>result\<close>) are
  inherited by no array, string, number or boolean, so only an object's own property answers.
\<close>

definition js_prop :: "jsvalue \<Rightarrow> string \<Rightarrow> jsvalue" where
  "js_prop v k =
     (case v of
        JObj ps \<Rightarrow> (case map_of ps k of Some x \<Rightarrow> x | None \<Rightarrow> JUndefined)
      | _ \<Rightarrow> JUndefined)"

text \<open>\<^verbatim>\<open>v[0]\<close> of a value that is neither \<^verbatim>\<open>null\<close> nor \<^verbatim>\<open>undefined\<close>.\<close>

definition js_index0 :: "jsvalue \<Rightarrow> jsvalue" where
  "js_index0 v =
     (case v of
        JArr xs \<Rightarrow> (case xs of [] \<Rightarrow> JUndefined | x # _ \<Rightarrow> x)
      | JStr s \<Rightarrow> (case s of [] \<Rightarrow> JUndefined | c # _ \<Rightarrow> JStr [c])
      | JObj ps \<Rightarrow> (case map_of ps ''0'' of Some x \<Rightarrow> x | None \<Rightarrow> JUndefined)
      | _ \<Rightarrow> JUndefined)"

text \<open>Optional chaining: \<^verbatim>\<open>v?.k\<close> and \<^verbatim>\<open>v?.[0]\<close>.\<close>

definition opt_prop :: "jsvalue \<Rightarrow> string \<Rightarrow> jsvalue" where
  "opt_prop v k = (if nullish v then JUndefined else js_prop v k)"

definition opt_index0 :: "jsvalue \<Rightarrow> jsvalue" where
  "opt_index0 v = (if nullish v then JUndefined else js_index0 v)"

text \<open>
  White space as \<^verbatim>\<open>String.prototype.trim\<close> sees it, among the code units below 256: tab,
  line feed, vertical tab, form feed, carriage return, space and no-break space.
\<close>

definition is_ws :: "char \<Rightarrow> bool" where
  "is_ws c = (c \<in> {CHR 0x09, CHR 0x0A, CHR 0x0B, CHR 0x0C, CHR 0x0D, CHR 0x20, CHR 0xA0})"

definition js_trim :: "string \<Rightarrow> string" where
  "js_trim s = rev (dropWhile is_ws (rev (dropWhile is_ws s)))"

text \<open>
  \<^verbatim>\<open>s.split(sep)\<close> for a separator of one character. The result is never empty:
  \<^verbatim>\<open>"".split(",")\<close> is \<^verbatim>\<open>[""]\<close>.
\<close>

fun js_split :: "char \<Rightarrow> string \<Rightarrow> string list" where
  "js_split sep [] = [[]]"
| "js_split sep (c # cs) =
     (if c = sep then [] # js_split sep cs
      else (c # hd (js_split sep cs)) # tl (js_split sep cs))"


section \<open>The report-generation endpoint: \<^verbatim>\<open>app/api/analyze/route.ts\<close>\<close>

definition MODELS_TO_TRY :: "string list" where
  "MODELS_TO_TRY =
     [''gemini-2.0-flash'', ''gemini-2.0-pro'', ''gemini-1.5-flash'', ''gemini-1.5-pro'']"

text \<open>The two environment variables the handler reads; \<open>None\<close> is an unset variable.\<close>

record process_env =
  GEMINI_API_KEY :: "string option"
  GOOGLE_GEMINI_API_KEY :: "string option"

text \<open>\<^verbatim>\<open>await req.json()\<close>: the parsed body, or the exception it rejects with.\<close>

datatype req_json = BodyThrew string | Body jsvalue

text \<open>
  The \<^verbatim>\<open>payload\<close> object: one text part and one inline image part. A request to the backend
  is that payload posted to a URL; method and headers are the same for every request.
\<close>

record payload =
  text_part :: string
  mime_type :: string
  inline_data :: string

record fetch_request =
  url :: string
  body :: payload

text \<open>
  What \<^verbatim>\<open>await fetch(...)\<close> followed by \<^verbatim>\<open>await response.json()\<close> gives: either one of the two
  rejects (\<open>Threw\<close>, with the \<^verbatim>\<open>message\<close> of the exception), or there is a reply with its
  \<^verbatim>\<open>response.ok\<close> flag and its parsed body. The network is a parameter of the model: it
  answers the \<open>n\<close>-th request of an invocation (counted from 0).
\<close>

datatype fetch_outcome = Threw string | Replied bool jsvalue

type_synonym network = "nat \<Rightarrow> fetch_request \<Rightarrow> fetch_outcome"

datatype response_body = ResultBody jsvalue | ErrorBody string

datatype http_response = JsonResponse (status: nat) (content: response_body)

text \<open>How the loop over the models ends: by the \<^verbatim>\<open>return\<close> inside it, or by running out.\<close>

datatype loop_exit = Returned http_response | Exhausted jsvalue

text \<open>\<^verbatim>\<open>json.candidates?.[0]?.content?.parts?.[0]?.text\<close>, for a body that is not \<^verbatim>\<open>null\<close>.\<close>

definition candidate_text :: "jsvalue \<Rightarrow> jsvalue" where
  "candidate_text json =
     opt_prop
       (opt_index0 (opt_prop (opt_prop (opt_index0 (js_prop json ''candidates'')) ''content'')
          ''parts''))
       ''text''"

definition model_url :: "string \<Rightarrow> string \<Rightarrow> string" where
  "model_url modelName apiKey =
     ''https://generativelanguage.googleapis.com/v1/models/'' @ modelName
       @ '':generateContent?key='' @ apiKey"

text \<open>
  The \<^verbatim>\<open>for\<close> loop of \<^verbatim>\<open>POST\<close> (lines 78 to 112), with \<^verbatim>\<open>lastError\<close> and the requests issued
  so far as accumulators. Two things throw inside the \<^verbatim>\<open>try\<close> besides the request itself,
  and the \<^verbatim>\<open>catch\<close> then records the engine's message as \<^verbatim>\<open>lastError\<close>: reading a property of
  a \<^verbatim>\<open>null\<close> body, and, in the branch of a status that is not ok, the template literal of
  \<^verbatim>\<open>console.error\<close>, which converts the \<^verbatim>\<open>lastError\<close> just assigned to a string.
\<close>

fun try_models ::
  "(js_fault \<Rightarrow> string) \<Rightarrow> network \<Rightarrow> string \<Rightarrow> payload \<Rightarrow> string list \<Rightarrow> jsvalue
     \<Rightarrow> fetch_request list \<Rightarrow> loop_exit \<times> fetch_request list"
where
  "try_models tem net apiKey pl [] lastError issued = (Exhausted lastError, issued)"
| "try_models tem net apiKey pl (modelName # rest) lastError issued =
     (let request = \<lparr>url = model_url modelName apiKey, body = pl\<rparr>;
          issued' = issued @ [request]
      in case net (length issued) request of
           Threw msg \<Rightarrow> try_models tem net apiKey pl rest (JStr msg) issued'
         | Replied ok json \<Rightarrow>
             if ok then
               if nullish json then
                 try_models tem net apiKey pl rest
                   (JStr (tem (CannotRead json ''candidates''))) issued'
               else
                 let text = js_or (js_or (candidate_text json) (candidate_text json)) JNull
                 in if js_truthy text
                    then (Returned (JsonResponse 200 (ResultBody text)), issued')
                    else try_models tem net apiKey pl rest
                           (JStr ''Model returned no text'') issued'
             else
               if nullish json then
                 try_models tem net apiKey pl rest
                   (JStr (tem (CannotRead json ''error''))) issued'
               else
                 let lastError' = js_or (opt_prop (js_prop json ''error'') ''message'')
                                    (JStr ''Unknown API error'')
                 in case js_to_string lastError' of
                      Inl f \<Rightarrow> try_models tem net apiKey pl rest (JStr (tem f)) issued'
                    | Inr logged \<Rightarrow> try_models tem net apiKey pl rest lastError' issued')"

text \<open>The outer \<^verbatim>\<open>catch\<close>.\<close>

definition internal_error :: "string \<Rightarrow> http_response" where
  "internal_error msg = JsonResponse 500 (ErrorBody (''Internal server error: '' @ msg))"

text \<open>
  Lines 75 to 118 of \<^verbatim>\<open>POST\<close>: \<^verbatim>\<open>lastError\<close> is initialised, the loop runs, and when it runs
  out the 503 response is built, whose template literal converts \<^verbatim>\<open>lastError\<close> to a string;
  if that throws, the outer \<^verbatim>\<open>catch\<close> answers.
\<close>

definition dispatch ::
  "(js_fault \<Rightarrow> string) \<Rightarrow> network \<Rightarrow> string \<Rightarrow> payload \<Rightarrow> string list
     \<Rightarrow> http_response \<times> fetch_request list"
where
  "dispatch tem net apiKey pl models =
     (case try_models tem net apiKey pl models (JStr ''Unknown error'') [] of
        (Returned r, issued) \<Rightarrow> (r, issued)
      | (Exhausted lastError, issued) \<Rightarrow>
          (case js_to_string lastError of
             Inr shown \<Rightarrow>
               (JsonResponse 503
                  (ErrorBody (''All Gemini models failed. Last error: '' @ shown)),
                issued)
           | Inl f \<Rightarrow> (internal_error (tem f), issued)))"

text \<open>
  The two interpolations of the prompt: \<^verbatim>\<open>${visionAnalysis?.label || "unknown"}\<close> and
  \<^verbatim>\<open>${symptoms || "not provided"}\<close>. Either conversion can throw.
\<close>

definition vision_label :: "jsvalue \<Rightarrow> js_fault + string" where
  "vision_label visionAnalysis =
     js_to_string (js_or (opt_prop visionAnalysis ''label'') (JStr ''unknown''))"

definition symptoms_text :: "jsvalue \<Rightarrow> js_fault + string" where
  "symptoms_text symptoms = js_to_string (js_or symptoms (JStr ''not provided''))"

text \<open>The fixed lines of the template literal that follow its opening line break.\<close>

definition prompt_head :: string where
  "prompt_head =
     ''You are a dermatology assistant AI.  \<newline>'' @
     ''Analyze this skin image and provide:\<newline>'' @
     ''\<newline>'' @
     ''1. **Likely condition(s)**  \<newline>'' @
     ''2. **Risk level**  \<newline>'' @
     ''3. **Whether the user should see a doctor**  \<newline>'' @
     ''4. **Possible causes**  \<newline>'' @
     ''5. **Non-medical general advice**\<newline>'' @
     ''\<newline>'' @
     ''DO NOT give medical diagnosis. Give safe recommendations.\<newline>'' @
     ''\<newline>''"

text \<open>
  The template literal of \<^verbatim>\<open>promptText\<close>, before and after \<^verbatim>\<open>.trim()\<close>. The label is
  converted first, then the symptoms.
\<close>

definition prompt_template :: "jsvalue \<Rightarrow> jsvalue \<Rightarrow> js_fault + string" where
  "prompt_template visionAnalysis symptoms =
     (case vision_label visionAnalysis of
        Inl f \<Rightarrow> Inl f
      | Inr label \<Rightarrow>
          (case symptoms_text symptoms of
             Inl f \<Rightarrow> Inl f
           | Inr described \<Rightarrow>
               Inr (''\<newline>'' @ prompt_head @
                    ''VISION AI result: '' @ label @ ''\<newline>'' @
                    ''User symptoms: '' @ described @ ''\<newline>'' @
                    ''    '')))"

definition promptText :: "jsvalue \<Rightarrow> jsvalue \<Rightarrow> js_fault + string" where
  "promptText visionAnalysis symptoms =
     (case prompt_template visionAnalysis symptoms of
        Inl f \<Rightarrow> Inl f
      | Inr literal \<Rightarrow> Inr (js_trim literal))"

text \<open>\<^verbatim>\<open>image.split(";")[0].split(":")[1] || "image/jpeg"\<close>\<close>

definition mimeType :: "string \<Rightarrow> string" where
  "mimeType img =
     (case js_split CHR '':'' (hd (js_split CHR '';'' img)) of
        _ # m # _ \<Rightarrow> if m \<noteq> [] then m else ''image/jpeg''
      | _ \<Rightarrow> ''image/jpeg'')"

text \<open>
  \<^verbatim>\<open>image.includes(",") ? image.split(",")[1] : image\<close>. A string that contains a comma
  splits into two pieces at least, so the last case is never taken.
\<close>

definition base64Data :: "string \<Rightarrow> string" where
  "base64Data img =
     (if CHR '','' \<in> set img
      then (case js_split CHR '','' img of _ # d # _ \<Rightarrow> d | _ \<Rightarrow> img)
      else img)"

text \<open>The \<^verbatim>\<open>payload\<close> for an image and a prompt.\<close>

definition build_payload :: "string \<Rightarrow> string \<Rightarrow> payload" where
  "build_payload img prompt =
     \<lparr>text_part = prompt, mime_type = mimeType img, inline_data = base64Data img\<rparr>"

text \<open>\<^verbatim>\<open>process.env.GEMINI_API_KEY || process.env.GOOGLE_GEMINI_API_KEY\<close>\<close>

definition apiKey_of :: "process_env \<Rightarrow> string option" where
  "apiKey_of env =
     (case GEMINI_API_KEY env of
        Some k \<Rightarrow> if k \<noteq> [] then Some k else GOOGLE_GEMINI_API_KEY env
      | None \<Rightarrow> GOOGLE_GEMINI_API_KEY env)"

text \<open>
  The handler, over a list of models: the response, and the requests it issued to the
  backend, in order. Everything thrown before the loop ends in the outer \<^verbatim>\<open>catch\<close>:
  \<^verbatim>\<open>req.json()\<close> rejecting, destructuring a \<^verbatim>\<open>null\<close> body, a truthy \<^verbatim>\<open>image\<close> that is not a
  string and so has no \<^verbatim>\<open>split\<close> method, and a conversion in the template literal of the
  prompt that throws.
\<close>

definition POST_with ::
  "string list \<Rightarrow> (js_fault \<Rightarrow> string) \<Rightarrow> process_env \<Rightarrow> req_json \<Rightarrow> network
     \<Rightarrow> http_response \<times> fetch_request list"
where
  "POST_with models tem env req net =
     (case apiKey_of env of
        None \<Rightarrow> (JsonResponse 500 (ErrorBody ''Missing GEMINI_API_KEY''), [])
      | Some apiKey \<Rightarrow>
          if apiKey = [] then (JsonResponse 500 (ErrorBody ''Missing GEMINI_API_KEY''), [])
          else
            (case req of
               BodyThrew msg \<Rightarrow> (internal_error msg, [])
             | Body b \<Rightarrow>
                 if nullish b then (internal_error (tem (CannotDestructure b)), [])
                 else
                   let image_field = js_prop b ''image'';
                       symptoms = js_prop b ''symptoms'';
                       visionAnalysis = js_prop b ''visionAnalysis''
                   in if \<not> js_truthy image_field
                      then (JsonResponse 400 (ErrorBody ''Image not provided''), [])
                      else
                        (case image_field of
                           JStr img \<Rightarrow>
                             (case promptText visionAnalysis symptoms of
                                Inl f \<Rightarrow> (internal_error (tem f), [])
                              | Inr prompt \<Rightarrow>
                                  dispatch tem net apiKey (build_payload img prompt) models)
                         | _ \<Rightarrow> (internal_error (tem (NotAFunction ''image.split'')), []))))"

definition POST ::
  "(js_fault \<Rightarrow> string) \<Rightarrow> process_env \<Rightarrow> req_json \<Rightarrow> network
     \<Rightarrow> http_response \<times> fetch_request list"
where
  "POST = POST_with MODELS_TO_TRY"


section \<open>The wizard: \<^verbatim>\<open>app/page.tsx\<close>\<close>

datatype Screen = Landing | Scan | Triage | Results | Information | About

text \<open>
  \<^verbatim>\<open>interface ScanSession\<close>. The optional \<^verbatim>\<open>llm_report\<close> is \<^verbatim>\<open>undefined\<close> while absent, the
  optional \<^verbatim>\<open>error\<close> is \<open>None\<close> while absent; \<^verbatim>\<open>vision_result\<close> holds whatever the
  classification service returned.
\<close>

record ScanSession =
  symptoms :: "string list"
  risk_score :: int
  image_url :: "string option"
  vision_result :: jsvalue
  llm_report :: jsvalue
  error :: "string option"

text \<open>The object that \<^verbatim>\<open>useState<ScanSession>\<close> starts from and \<^verbatim>\<open>resetSession\<close> writes.\<close>

definition empty_session :: ScanSession where
  "empty_session =
     \<lparr>symptoms = [], risk_score = 0, image_url = None, vision_result = JNull,
      llm_report = JUndefined, error = None\<rparr>"

text \<open>The object \<^verbatim>\<open>proceedToResults\<close> posts to \<^verbatim>\<open>/api/analyze\<close>.\<close>

record analyze_body =
  body_image :: "string option"
  body_symptoms :: "string list"
  body_visionAnalysis :: jsvalue

text \<open>
  What is outstanding: the timers set with \<^verbatim>\<open>setTimeout\<close>, the \<^verbatim>\<open>FileReader\<close>, the call to
  the classification service and the request to \<^verbatim>\<open>/api/analyze\<close>. The timer of
  \<^verbatim>\<open>proceedToResults\<close> carries the request body, because its callback reads \<^verbatim>\<open>capturedImage\<close>,
  \<^verbatim>\<open>symptoms\<close> and \<^verbatim>\<open>scanSession\<close> from the closure of the render in which the button was
  clicked.
\<close>

datatype task =
    NavTimer Screen
  | FileRead
  | VisionCall string
  | ReportTimer analyze_body
  | ReportFetch analyze_body

text \<open>
  The state of \<^verbatim>\<open>DermaVisionApp\<close>: its \<^verbatim>\<open>useState\<close> cells (the language apart, which no
  handler below reads), and what the component has done to the outside: the calls of
  \<^verbatim>\<open>alert\<close>, the outstanding tasks and the bodies posted to \<^verbatim>\<open>/api/analyze\<close>. A handler
  runs against the latest render, so it reads the current state.
\<close>

record app_state =
  currentScreen :: Screen
  isTransitioning :: bool
  isAnalyzing :: bool
  isVisionLoading :: bool
  scanSession :: ScanSession
  capturedImage :: "string option"
  symptomsInput :: string
  alerts :: "string list"
  pending :: "task list"
  posted :: "analyze_body list"

definition init :: app_state where
  "init =
     \<lparr>currentScreen = Landing, isTransitioning = False, isAnalyzing = False,
      isVisionLoading = False, scanSession = empty_session, capturedImage = None,
      symptomsInput = [], alerts = [], pending = [], posted = []\<rparr>"

definition navigateToScreen :: "Screen \<Rightarrow> app_state \<Rightarrow> app_state" where
  "navigateToScreen screen st =
     st\<lparr>isTransitioning := True, pending := pending st @ [NavTimer screen]\<rparr>"

text \<open>The callback of the 300 ms timer of \<^verbatim>\<open>navigateToScreen\<close>.\<close>

definition nav_timer_fired :: "Screen \<Rightarrow> app_state \<Rightarrow> app_state" where
  "nav_timer_fired screen st = st\<lparr>currentScreen := screen, isTransitioning := False\<rparr>"

text \<open>
  \<^verbatim>\<open>analyzeWithVisionAI\<close> up to its first \<^verbatim>\<open>await\<close>, and its two continuations: the call
  resolves with \<^verbatim>\<open>result.data[0]\<close>, or something in the \<^verbatim>\<open>try\<close> block throws. Both run the
  \<^verbatim>\<open>finally\<close> block.
\<close>

definition analyzeWithVisionAI :: "string \<Rightarrow> app_state \<Rightarrow> app_state" where
  "analyzeWithVisionAI imageSrc st =
     st\<lparr>isVisionLoading := True, pending := pending st @ [VisionCall imageSrc]\<rparr>"

definition vision_resolved :: "jsvalue \<Rightarrow> app_state \<Rightarrow> app_state" where
  "vision_resolved data0 st =
     st\<lparr>scanSession := (scanSession st)\<lparr>vision_result := data0\<rparr>,
        isVisionLoading := False\<rparr>"

definition vision_failed :: "app_state \<Rightarrow> app_state" where
  "vision_failed st =
     st\<lparr>alerts := alerts st @ [''AI Model connection failed. Continuing with basic analysis.''],
        isVisionLoading := False\<rparr>"

definition performAnalysis :: "string \<Rightarrow> app_state \<Rightarrow> app_state" where
  "performAnalysis imageSrc st =
     navigateToScreen Triage
       (analyzeWithVisionAI imageSrc
          (st\<lparr>capturedImage := Some imageSrc,
              scanSession := (scanSession st)\<lparr>image_url := Some imageSrc\<rparr>\<rparr>))"

text \<open>
  \<^verbatim>\<open>handleSymptomsChange\<close>. The other two editing handlers, \<^verbatim>\<open>toggleSymptom\<close> and
  \<^verbatim>\<open>removeSymptomsTag\<close>, also do nothing but call \<^verbatim>\<open>setSymptomsInput\<close>, so each of their
  calls acts as \<^verbatim>\<open>handleSymptomsChange\<close> at the text it computes.
\<close>

definition handleSymptomsChange :: "string \<Rightarrow> app_state \<Rightarrow> app_state" where
  "handleSymptomsChange text st = st\<lparr>symptomsInput := text\<rparr>"

text \<open>\<^verbatim>\<open>symptomsInput.split(",").map((s) => s.trim()).filter((s) => s)\<close>\<close>

definition parse_symptoms :: "string \<Rightarrow> string list" where
  "parse_symptoms input = filter (\<lambda>s. s \<noteq> []) (map js_trim (js_split CHR '','' input))"

definition proceedToResults :: "app_state \<Rightarrow> app_state" where
  "proceedToResults st =
     (let symptoms = parse_symptoms (symptomsInput st)
      in if length symptoms = 0
         then st\<lparr>alerts := alerts st @ [''Please enter at least one symptom'']\<rparr>
         else
           let st1 = st\<lparr>scanSession := (scanSession st)\<lparr>symptoms := symptoms\<rparr>\<rparr>;
               st2 = navigateToScreen Results st1
           in st2\<lparr>pending := pending st2 @
                 [ReportTimer
                    \<lparr>body_image = capturedImage st,
                     body_symptoms = symptoms,
                     body_visionAnalysis = vision_result (scanSession st)\<rparr>]\<rparr>)"

text \<open>The callback of the 500 ms timer up to \<^verbatim>\<open>await fetch\<close>: the request is posted.\<close>

definition report_timer_fired :: "analyze_body \<Rightarrow> app_state \<Rightarrow> app_state" where
  "report_timer_fired b st =
     st\<lparr>posted := posted st @ [b], pending := pending st @ [ReportFetch b]\<rparr>"

text \<open>
  What comes back: \<^verbatim>\<open>fetch\<close> rejects, or there is a response with a status and the outcome of
  \<^verbatim>\<open>response.json()\<close>. \<^verbatim>\<open>response.ok\<close> is a status from 200 to 299.
\<close>

datatype analyze_reply = FetchRejected string | Responded nat req_json

text \<open>The decimal form of a status in \<^verbatim>\<open>`API Error: ${response.status}`\<close>.\<close>

fun show_nat :: "nat \<Rightarrow> string" where
  "show_nat n =
     (if n < 10 then [char_of (48 + n)]
      else show_nat (n div 10) @ [char_of (48 + n mod 10)])"

declare show_nat.simps [simp del]

definition set_error :: "string \<Rightarrow> app_state \<Rightarrow> app_state" where
  "set_error msg st = st\<lparr>scanSession := (scanSession st)\<lparr>error := Some msg\<rparr>\<rparr>"

text \<open>
  The rest of the callback. Everything thrown inside its \<^verbatim>\<open>try\<close> block, the
  \<^verbatim>\<open>Error\<close> for a status that is not ok included, reaches the \<^verbatim>\<open>catch\<close>, which stores the
  message.
\<close>

definition report_replied :: "(js_fault \<Rightarrow> string) \<Rightarrow> analyze_reply \<Rightarrow> app_state \<Rightarrow> app_state" where
  "report_replied tem reply st =
     (case reply of
        FetchRejected msg \<Rightarrow> set_error msg st
      | Responded code parsed \<Rightarrow>
          if \<not> (200 \<le> code \<and> code \<le> 299) then set_error (''API Error: '' @ show_nat code) st
          else
            (case parsed of
               BodyThrew msg \<Rightarrow> set_error msg st
             | Body data \<Rightarrow>
                 if nullish data then set_error (tem (CannotRead data ''result'')) st
                 else if js_truthy (js_prop data ''result'')
                 then st\<lparr>scanSession := (scanSession st)\<lparr>llm_report := js_prop data ''result''\<rparr>\<rparr>
                 else st))"

definition resetSession :: "app_state \<Rightarrow> app_state" where
  "resetSession st =
     navigateToScreen Landing
       (st\<lparr>scanSession :=
             \<lparr>symptoms = [], risk_score = 0, image_url = None, vision_result = JNull,
              llm_report = JUndefined, error = None\<rparr>,
           symptomsInput := [],
           capturedImage := None,
           isAnalyzing := False,
           isVisionLoading := False\<rparr>)"

text \<open>\<^verbatim>\<open>downloadPDF\<close>: without a report it alerts; with one it prints, which changes no state.\<close>

definition downloadPDF :: "app_state \<Rightarrow> app_state" where
  "downloadPDF st =
     (if \<not> js_truthy (llm_report (scanSession st))
      then st\<lparr>alerts := alerts st @ [''No analysis available'']\<rparr>
      else st)"

text \<open>
  What can happen to the component: the user acts on a control of the screen that is shown, or
  an outstanding task completes. \<open>FileChosen\<close> is the change event of the file input with a
  file, \<open>FileLoaded\<close> the \<^verbatim>\<open>onload\<close> of its reader; \<open>WebcamCapture\<close> is \<^verbatim>\<open>onCapture\<close> of the
  scanner.
\<close>

datatype event =
    ClickStartScan
  | ClickCloseScan
  | WebcamCapture string
  | FileChosen
  | FileLoaded string
  | SymptomsEdited string
  | ClickGenerateReport
  | ClickDownloadPDF
  | ClickNewScan
  | ClickBack
  | NavTimerFired Screen
  | VisionResolved string jsvalue
  | VisionFailed string
  | ReportTimerFired analyze_body
  | ReportReplied analyze_body analyze_reply

definition finish :: "task \<Rightarrow> app_state \<Rightarrow> app_state" where
  "finish t st = st\<lparr>pending := remove1 t (pending st)\<rparr>"

text \<open>
  One event. A control acts only on the screen that renders it, and only while it is enabled:
  the button of \<^verbatim>\<open>TriagePage\<close> is \<^verbatim>\<open>disabled={isAnalyzingVision}\<close>, the download button
  \<^verbatim>\<open>disabled={!scanSession.llm_report}\<close>. A completion acts only if its task is outstanding.
  An event that cannot happen leaves the state as it is. The lengths of the delays are not
  part of the model: an outstanding timer or call may complete at any later moment.
\<close>

definition step :: "(js_fault \<Rightarrow> string) \<Rightarrow> app_state \<Rightarrow> event \<Rightarrow> app_state" where
  "step tem st ev =
     (case ev of
        ClickStartScan \<Rightarrow>
          if currentScreen st = Landing then navigateToScreen Scan st else st
      | ClickCloseScan \<Rightarrow>
          if currentScreen st = Scan then navigateToScreen Landing st else st
      | WebcamCapture imageSrc \<Rightarrow>
          if currentScreen st = Scan then performAnalysis imageSrc st else st
      | FileChosen \<Rightarrow>
          if currentScreen st = Scan then st\<lparr>pending := pending st @ [FileRead]\<rparr> else st
      | FileLoaded imageSrc \<Rightarrow>
          if FileRead \<in> set (pending st)
          then performAnalysis imageSrc (finish FileRead st) else st
      | SymptomsEdited text \<Rightarrow>
          if currentScreen st = Triage then handleSymptomsChange text st else st
      | ClickGenerateReport \<Rightarrow>
          if currentScreen st = Triage \<and> \<not> isVisionLoading st
          then proceedToResults st else st
      | ClickDownloadPDF \<Rightarrow>
          if currentScreen st = Results \<and> js_truthy (llm_report (scanSession st))
          then downloadPDF st else st
      | ClickNewScan \<Rightarrow>
          if currentScreen st = Results then resetSession st else st
      | ClickBack \<Rightarrow>
          if currentScreen st = Information \<or> currentScreen st = About
          then navigateToScreen Landing st else st
      | NavTimerFired screen \<Rightarrow>
          if NavTimer screen \<in> set (pending st)
          then nav_timer_fired screen (finish (NavTimer screen) st) else st
      | VisionResolved imageSrc data0 \<Rightarrow>
          if VisionCall imageSrc \<in> set (pending st)
          then vision_resolved data0 (finish (VisionCall imageSrc) st) else st
      | VisionFailed imageSrc \<Rightarrow>
          if VisionCall imageSrc \<in> set (pending st)
          then vision_failed (finish (VisionCall imageSrc) st) else st
      | ReportTimerFired b \<Rightarrow>
          if ReportTimer b \<in> set (pending st)
          then report_timer_fired b (finish (ReportTimer b) st) else st
      | ReportReplied b reply \<Rightarrow>
          if ReportFetch b \<in> set (pending st)
          then report_replied tem reply (finish (ReportFetch b) st) else st)"

fun run :: "(js_fault \<Rightarrow> string) \<Rightarrow> app_state \<Rightarrow> event list \<Rightarrow> app_state" where
  "run tem st [] = st"
| "run tem st (ev # evs) = run tem (step tem st ev) evs"



section \<open>Notions of the specification\<close>

text \<open>The request the loop issues for one model.\<close>

definition request_for :: "string \<Rightarrow> payload \<Rightarrow> string \<Rightarrow> fetch_request" where
  "request_for apiKey pl modelName = \<lparr>url = model_url modelName apiKey, body = pl\<rparr>"

text \<open>
  The specification's success of a candidate: the transport succeeds, the backend reports no
  error status and the response contains extractable result text. A candidate fails when
  there is none: a transport error, a backend error status, or no extractable text.
\<close>

definition extractable_text :: "fetch_outcome \<Rightarrow> jsvalue option" where
  "extractable_text out =
     (case out of
        Threw msg \<Rightarrow> None
      | Replied ok json \<Rightarrow>
          if ok \<and> \<not> nullish json \<and> js_truthy (candidate_text json)
          then Some (candidate_text json) else None)"

text \<open>
  The specification's failure message of a failed candidate, as a text: the reason of the
  transport failure; for a reply without text the fixed \<^verbatim>\<open>Model returned no text\<close>; for an
  error status the message the backend provides (a generic text when it provides none), or,
  when that message cannot be converted to a string, the message of the error this raises.
\<close>

definition failure_reason :: "(js_fault \<Rightarrow> string) \<Rightarrow> fetch_outcome \<Rightarrow> string" where
  "failure_reason tem out =
     (case out of
        Threw msg \<Rightarrow> msg
      | Replied ok json \<Rightarrow>
          if nullish json then tem (CannotRead json (if ok then ''candidates'' else ''error''))
          else if ok then ''Model returned no text''
          else
            (case js_to_string
                    (js_or (opt_prop (js_prop json ''error'') ''message'')
                       (JStr ''Unknown API error'')) of
               Inr shown \<Rightarrow> shown
             | Inl f \<Rightarrow> tem f))"

text \<open>An authorization credential is configured: one of the two variables is set and not empty.\<close>

definition credential_configured :: "process_env \<Rightarrow> bool" where
  "credential_configured env =
     ((case GEMINI_API_KEY env of Some k \<Rightarrow> k \<noteq> [] | None \<Rightarrow> False) \<or>
      (case GOOGLE_GEMINI_API_KEY env of Some k \<Rightarrow> k \<noteq> [] | None \<Rightarrow> False))"

text \<open>
  The events that are actions of the user on a control, as opposed to completions of
  outstanding tasks.
\<close>

fun user_event :: "event \<Rightarrow> bool" where
  "user_event (NavTimerFired screen) = False"
| "user_event (FileLoaded imageSrc) = False"
| "user_event (VisionResolved imageSrc data0) = False"
| "user_event (VisionFailed imageSrc) = False"
| "user_event (ReportTimerFired b) = False"
| "user_event (ReportReplied b reply) = False"
| "user_event ev = True"


section \<open>Concrete inputs\<close>

text \<open>Replies of the backend: one carrying a text part, one carrying an error message.\<close>

definition gemini_text_reply :: "string \<Rightarrow> jsvalue" where
  "gemini_text_reply t =
     JObj [(''candidates'',
            JArr [JObj [(''content'', JObj [(''parts'', JArr [JObj [(''text'', JStr t)]])])]])]"

definition gemini_error_reply :: "string \<Rightarrow> jsvalue" where
  "gemini_error_reply m = JObj [(''error'', JObj [(''message'', JStr m)])]"

definition example_env :: process_env where
  "example_env = \<lparr>GEMINI_API_KEY = Some ''secret'', GOOGLE_GEMINI_API_KEY = None\<rparr>"

definition example_image :: string where
  "example_image = ''data:image/png;base64,iVBORw0KGgo=''"

definition example_body :: jsvalue where
  "example_body =
     JObj [(''image'', JStr ''data:image/png;base64,iVBORw0KGgo=''),
           (''symptoms'', JArr [JStr ''itching'', JStr ''redness'']),
           (''visionAnalysis'', JNull)]"

text \<open>The prompt and the payload the endpoint builds for that body.\<close>

definition example_prompt :: string where
  "example_prompt =
     prompt_head @ ''VISION AI result: unknown\<newline>User symptoms: itching,redness''"

definition example_payload :: payload where
  "example_payload = build_payload example_image example_prompt"

text \<open>A wording of the engine's messages, for the examples.\<close>

fun example_tem :: "js_fault \<Rightarrow> string" where
  "example_tem (CannotDestructure v) = ''Cannot destructure the body''"
| "example_tem (CannotRead v k) = ''Cannot read properties of null (reading '' @ k @ '')''"
| "example_tem (NotAFunction name) = name @ '' is not a function''"
| "example_tem (CannotConvert v) = ''Cannot convert object to primitive value''"

text \<open>A network on which the first two candidates fail and the third answers.\<close>

definition example_net :: network where
  "example_net n r =
     (if n = 0 then Threw ''fetch failed''
      else if n = 1 then Replied False (gemini_error_reply ''quota exceeded'')
      else Replied True (gemini_text_reply ''Likely eczema''))"

text \<open>A network on which every candidate fails, the fourth with a message of the backend.\<close>

definition failing_net :: network where
  "failing_net n r =
     (if n = 3 then Replied False (gemini_error_reply ''model overloaded'')
      else Threw ''fetch failed'')"

text \<open>
  A network on which the fourth candidate reports an error whose message is an object with
  an own \<^verbatim>\<open>toString\<close> property, the JSON text \<^verbatim>\<open>{"error":{"message":{"toString":null}}}\<close>.
\<close>

definition odd_net :: network where
  "odd_net n r =
     (if n = 3
      then Replied False (JObj [(''error'', JObj [(''message'', JObj [(''toString'', JNull)])])])
      else Threw ''fetch failed'')"

text \<open>
  A body whose symptoms are an array with one object that has an own \<^verbatim>\<open>toString\<close> property,
  the JSON text \<^verbatim>\<open>[{"toString":null}]\<close>.
\<close>

definition unprintable :: jsvalue where
  "unprintable = JObj [(''toString'', JNull)]"

definition odd_body :: jsvalue where
  "odd_body =
     JObj [(''image'', JStr ''data:image/png;base64,iVBORw0KGgo=''),
           (''symptoms'', JArr [JObj [(''toString'', JNull)]])]"

text \<open>Two results of the classification service.\<close>

definition mole :: jsvalue where
  "mole =
     JObj [(''label'', JStr ''mole''),
           (''confidences'',
            JArr [JObj [(''label'', JStr ''mole''), (''confidence'', JNum False ''0.9'')]])]"

definition nevus :: jsvalue where
  "nevus = JObj [(''label'', JStr ''nevus''), (''confidences'', JArr [])]"

text \<open>
  A user chooses a file and, before its reader has finished, also takes a picture with the
  camera: two classification calls are outstanding. The first resolves, which enables the
  button of the symptom screen; the user submits and arrives at the results screen while
  the second call is still outstanding.
\<close>

definition two_captures :: "event list" where
  "two_captures =
     [ClickStartScan, NavTimerFired Scan, FileChosen, WebcamCapture ''data:A'',
      FileLoaded ''data:B'', NavTimerFired Triage, NavTimerFired Triage,
      VisionResolved ''data:A'' nevus, SymptomsEdited ''itching'', ClickGenerateReport,
      NavTimerFired Results]"

text \<open>A user takes one picture and types a symptom while the classification call is outstanding.\<close>

definition early_submit :: "event list" where
  "early_submit =
     [ClickStartScan, NavTimerFired Scan, WebcamCapture ''data:X'', NavTimerFired Triage,
      SymptomsEdited ''itching'']"

text \<open>The same, but the classification call has failed before the user types.\<close>

definition classification_over :: "event list" where
  "classification_over =
     [ClickStartScan, NavTimerFired Scan, WebcamCapture ''data:X'', NavTimerFired Triage,
      VisionFailed ''data:X'', SymptomsEdited ''itching'']"

text \<open>
  The user then submits, the results screen appears, the request is posted and the endpoint
  answers 503.
\<close>

definition itching_body :: analyze_body where
  "itching_body =
     \<lparr>body_image = Some ''data:X'', body_symptoms = [''itching''],
      body_visionAnalysis = JNull\<rparr>"

definition report_failed :: "event list" where
  "report_failed =
     [ClickStartScan, NavTimerFired Scan, WebcamCapture ''data:X'', NavTimerFired Triage,
      VisionFailed ''data:X'', SymptomsEdited ''itching'', ClickGenerateReport,
      NavTimerFired Results, ReportTimerFired itching_body,
      ReportReplied itching_body
        (Responded 503 (Body (JObj [(''error'', JStr ''All Gemini models failed.'')])))]"


section \<open>Properties of the endpoint\<close>

subsection \<open>Conversion to a string\<close>

lemma js_elements_strings: "js_elements (map JStr ss) = Inr ss"
  by (induction ss) simp_all

lemma js_to_string_strings: "js_to_string (JArr (map JStr ss)) = Inr (js_join '','' ss)"
  by (simp add: js_elements_strings)

subsection \<open>The loop over the models\<close>

lemma try_models_success:
  "k < length ms \<Longrightarrow>
   (\<forall>i<k. extractable_text (net (length issued + i) (request_for key pl (ms ! i))) = None) \<Longrightarrow>
   extractable_text (net (length issued + k) (request_for key pl (ms ! k))) = Some t \<Longrightarrow>
   try_models tem net key pl ms le issued =
     (Returned (JsonResponse 200 (ResultBody t)),
      issued @ map (request_for key pl) (take (Suc k) ms))"
proof (induction ms arbitrary: k le issued)
  case Nil
  then show ?case by simp
next
  case (Cons m ms)
  show ?case
  proof (cases k)
    case 0
    with Cons.prems show ?thesis
      by (auto simp: extractable_text_def request_for_def js_or_def Let_def
               split: fetch_outcome.splits if_splits)
  next
    case (Suc j)
    have fail0: "extractable_text (net (length issued) (request_for key pl m)) = None"
      using Cons.prems(2) Suc by force
    have rest: "try_models tem net key pl ms le' (issued @ [request_for key pl m]) =
       (Returned (JsonResponse 200 (ResultBody t)),
        (issued @ [request_for key pl m]) @ map (request_for key pl) (take (Suc j) ms))"
      for le'
    proof (rule Cons.IH)
      show "j < length ms" using Cons.prems(1) Suc by simp
      show "\<forall>i<j. extractable_text
             (net (length (issued @ [request_for key pl m]) + i) (request_for key pl (ms ! i)))
             = None"
        using Cons.prems(2) Suc by force
      show "extractable_text
             (net (length (issued @ [request_for key pl m]) + j) (request_for key pl (ms ! j)))
             = Some t"
        using Cons.prems(3) Suc by simp
    qed
    from fail0 show ?thesis
      using rest Suc
      by (auto simp: extractable_text_def request_for_def js_or_def Let_def
               split: fetch_outcome.splits if_splits sum.splits)
  qed
qed

text \<open>What the loop records for one failed candidate is a value whose string form exists.\<close>

lemma failed_candidate_step:
  assumes "extractable_text (net (length issued) (request_for key pl m)) = None"
  shows "\<exists>e. js_to_string e =
            Inr (failure_reason tem (net (length issued) (request_for key pl m)))
          \<and> try_models tem net key pl (m # ms) le issued =
              try_models tem net key pl ms e (issued @ [request_for key pl m])"
proof (cases "net (length issued) (request_for key pl m)")
  case (Threw msg)
  then show ?thesis
    by (intro exI[of _ "JStr msg"]) (simp add: failure_reason_def request_for_def)
next
  case (Replied ok json)
  show ?thesis
  proof (cases "nullish json")
    case True
    with Replied show ?thesis
      by (intro exI[of _ "JStr (tem (CannotRead json (if ok then ''candidates'' else ''error'')))"])
         (simp add: failure_reason_def request_for_def)
  next
    case False
    show ?thesis
    proof (cases ok)
      case True
      with Replied False assms show ?thesis
        by (intro exI[of _ "JStr ''Model returned no text''"])
           (auto simp: failure_reason_def request_for_def extractable_text_def js_or_def
                 split: if_splits)
    next
      case notok: False
      let ?m = "js_or (opt_prop (js_prop json ''error'') ''message'') (JStr ''Unknown API error'')"
      show ?thesis
      proof (cases "js_to_string ?m")
        case (Inl f)
        with Replied False notok show ?thesis
          by (intro exI[of _ "JStr (tem f)"])
             (simp add: failure_reason_def request_for_def Let_def)
      next
        case (Inr shown)
        with Replied False notok show ?thesis
          by (intro exI[of _ ?m])
             (simp add: failure_reason_def request_for_def Let_def)
      qed
    qed
  qed
qed

lemma try_models_exhausted:
  "ms \<noteq> [] \<Longrightarrow>
   (\<forall>i<length ms. extractable_text (net (length issued + i) (request_for key pl (ms ! i)))
      = None) \<Longrightarrow>
   \<exists>e. js_to_string e =
          Inr (failure_reason tem
                 (net (length issued + (length ms - 1)) (request_for key pl (last ms))))
      \<and> try_models tem net key pl ms le issued =
          (Exhausted e, issued @ map (request_for key pl) ms)"
proof (induction ms arbitrary: le issued)
  case Nil
  then show ?case by simp
next
  case (Cons m ms)
  have fail0: "extractable_text (net (length issued) (request_for key pl m)) = None"
    using Cons.prems(2) by force
  from fail0
    failed_candidate_step[where net = net and issued = issued and key = key and pl = pl
      and m = m and tem = tem and ms = ms and le = le]
  obtain e where e: "js_to_string e =
            Inr (failure_reason tem (net (length issued) (request_for key pl m)))"
    and st: "try_models tem net key pl (m # ms) le issued =
              try_models tem net key pl ms e (issued @ [request_for key pl m])"
    by blast
  show ?case
  proof (cases "ms = []")
    case True
    with e st show ?thesis by auto
  next
    case False
    have "\<forall>i<length ms. extractable_text
            (net (length (issued @ [request_for key pl m]) + i) (request_for key pl (ms ! i)))
            = None"
      using Cons.prems(2) by force
    from Cons.IH[OF False this, of e]
    obtain e' where e': "js_to_string e' =
          Inr (failure_reason tem
                 (net (length (issued @ [request_for key pl m]) + (length ms - 1))
                    (request_for key pl (last ms))))"
      and st': "try_models tem net key pl ms e (issued @ [request_for key pl m]) =
          (Exhausted e', (issued @ [request_for key pl m]) @ map (request_for key pl) ms)"
      by blast
    have len: "Suc (length issued + (length ms - 1)) = length issued + length ms"
      using False by (cases ms) auto
    from e' st' st False len show ?thesis by auto
  qed
qed

lemma try_models_bodies:
  "r \<in> set (snd (try_models tem net key pl ms le issued)) \<Longrightarrow> r \<in> set issued \<or> body r = pl"
proof (induction ms arbitrary: le issued)
  case Nil
  then show ?case by simp
next
  case (Cons m ms)
  have later: "r \<in> set (snd (try_models tem net key pl ms le'
                 (issued @ [\<lparr>url = model_url m key, body = pl\<rparr>]))) \<Longrightarrow>
              r \<in> set issued \<or> body r = pl" for le'
    using Cons.IH by fastforce
  from Cons.prems show ?case
    by (auto simp: Let_def split: fetch_outcome.splits if_splits sum.splits dest: later)
qed

lemma try_models_returned_status:
  "try_models tem net key pl ms le issued = (Returned r, out) \<Longrightarrow> status r = 200"
  by (induction ms arbitrary: le issued)
     (auto simp: Let_def split: fetch_outcome.splits if_splits sum.splits)

lemma try_models_printable:
  "try_models tem net key pl ms le issued = (Exhausted e, out) \<Longrightarrow>
   js_to_string le = Inr s0 \<Longrightarrow> \<exists>s. js_to_string e = Inr s"
proof (induction ms arbitrary: le issued s0)
  case Nil
  then show ?case by simp
next
  case (Cons m ms)
  have later: "try_models tem net key pl ms le'
                 (issued @ [\<lparr>url = model_url m key, body = pl\<rparr>]) = (Exhausted e, out) \<Longrightarrow>
               js_to_string le' = Inr s1 \<Longrightarrow> \<exists>s. js_to_string e = Inr s" for le' s1
    using Cons.IH by blast
  from Cons.prems(1) show ?case
    by (auto simp: Let_def split: fetch_outcome.splits if_splits sum.splits
             dest: later)
qed

lemma try_models_issues:
  "ms \<noteq> [] \<Longrightarrow> snd (try_models tem net key pl ms le issued) \<noteq> []"
proof (induction ms arbitrary: le issued)
  case Nil
  then show ?case by simp
next
  case (Cons m ms)
  have grow: "snd (try_models tem net key pl ms le' iss) \<noteq> []"
    if "iss \<noteq> []" for le' iss
    using that Cons.IH by (cases ms) auto
  show ?case
    by (auto simp: Let_def grow split: fetch_outcome.splits if_splits sum.splits)
qed

subsection \<open>The loop and the response after it\<close>

lemma dispatch_bodies:
  "r \<in> set (snd (dispatch tem net key pl models)) \<Longrightarrow> body r = pl"
  using try_models_bodies[of r tem net key pl models "JStr ''Unknown error''" "[]"]
  by (auto simp: dispatch_def split: prod.splits loop_exit.splits sum.splits)

lemma dispatch_status:
  "status (fst (dispatch tem net key pl models)) \<in> {200, 503}"
proof (cases "try_models tem net key pl models (JStr ''Unknown error'') []")
  case (Pair ex out)
  show ?thesis
  proof (cases ex)
    case (Returned r)
    with Pair show ?thesis
      by (auto simp: dispatch_def dest: try_models_returned_status)
  next
    case (Exhausted e)
    with Pair try_models_printable[of tem net key pl models "JStr ''Unknown error''" "[]" e out
        "''Unknown error''"]
    show ?thesis by (auto simp: dispatch_def)
  qed
qed

lemma dispatch_issues:
  "models \<noteq> [] \<Longrightarrow> snd (dispatch tem net key pl models) \<noteq> []"
  using try_models_issues[of models tem net key pl "JStr ''Unknown error''" "[]"]
  by (auto simp: dispatch_def split: prod.splits loop_exit.splits sum.splits)

subsection \<open>The handler\<close>

lemma apiKey_of_configured:
  "credential_configured env \<Longrightarrow> \<exists>k. apiKey_of env = Some k \<and> k \<noteq> []"
  by (auto simp: credential_configured_def apiKey_of_def split: option.splits)

lemma apiKey_of_missing:
  "\<not> credential_configured env \<Longrightarrow> apiKey_of env = None \<or> apiKey_of env = Some []"
  by (auto simp: credential_configured_def apiKey_of_def split: option.splits)

lemma POST_with_dispatch:
  assumes "apiKey_of env = Some key" "key \<noteq> []" "\<not> nullish b"
    and "js_prop b ''image'' = JStr img" "img \<noteq> []"
    and "promptText (js_prop b ''visionAnalysis'') (js_prop b ''symptoms'') = Inr p"
  shows "POST_with models tem env (Body b) net =
           dispatch tem net key (build_payload img p) models"
  using assms by (simp add: POST_with_def Let_def)

lemma POST_with_unbuilt:
  assumes "apiKey_of env = Some key" "key \<noteq> []" "\<not> nullish b"
    and "js_prop b ''image'' = JStr img" "img \<noteq> []"
    and "promptText (js_prop b ''visionAnalysis'') (js_prop b ''symptoms'') = Inl f"
  shows "POST_with models tem env (Body b) net = (internal_error (tem f), [])"
  using assms by (simp add: POST_with_def Let_def)

lemma POST_with_bodies:
  "r \<in> set (snd (POST_with models tem env (Body b) net)) \<Longrightarrow>
   \<exists>img p. js_prop b ''image'' = JStr img
     \<and> promptText (js_prop b ''visionAnalysis'') (js_prop b ''symptoms'') = Inr p
     \<and> body r = \<lparr>text_part = p, mime_type = mimeType img, inline_data = base64Data img\<rparr>"
  by (auto simp: POST_with_def Let_def build_payload_def
           split: option.splits if_splits jsvalue.splits sum.splits
           dest: dispatch_bodies)

subsection \<open>The prompt\<close>

lemma rtrim_after_mark:
  "\<not> is_ws z \<Longrightarrow>
   rev (dropWhile is_ws (rev (a @ z # s))) = a @ z # rev (dropWhile is_ws (rev s))"
  by (simp add: dropWhile_append)

lemma js_trim_prompt:
  "js_trim (''\<newline>'' @ prompt_head @ ''VISION AI result: '' @ l @ ''\<newline>'' @
            ''User symptoms:'' @ s)
   = prompt_head @ ''VISION AI result: '' @ l @ ''\<newline>'' @ ''User symptoms:'' @
       rev (dropWhile is_ws (rev s))"
proof -
  have lead: "dropWhile is_ws (''\<newline>'' @ prompt_head @ r) = prompt_head @ r" for r
    by (simp add: prompt_head_def is_ws_def)
  have colon: "\<not> is_ws CHR '':''" by (simp add: is_ws_def)
  have "rev (dropWhile is_ws (rev ((prompt_head @ ''VISION AI result: '' @ l @ ''\<newline>'' @
            ''User symptoms'') @ CHR '':'' # s)))
      = (prompt_head @ ''VISION AI result: '' @ l @ ''\<newline>'' @ ''User symptoms'') @
          CHR '':'' # rev (dropWhile is_ws (rev s))"
    by (rule rtrim_after_mark[OF colon])
  then show ?thesis
    using lead[of "''VISION AI result: '' @ l @ ''\<newline>'' @ ''User symptoms:'' @ s"]
    by (simp add: js_trim_def)
qed

lemma rtrim_indent:
  "rev (dropWhile is_ws (rev (s @ ''\<newline>'' @ ''    ''))) = rev (dropWhile is_ws (rev s))"
  by (simp add: is_ws_def)

lemma promptText_shape:
  assumes "vision_label va = Inr l" "symptoms_text sy = Inr s"
  shows "promptText va sy =
     Inr (prompt_head @ ''VISION AI result: '' @ l @ ''\<newline>'' @ ''User symptoms:'' @
            rev (dropWhile is_ws (rev ('' '' @ s))))"
proof -
  have "rev (dropWhile is_ws (rev (('' '' @ s) @ ''\<newline>'' @ ''    '')))
          = rev (dropWhile is_ws (rev ('' '' @ s)))"
    by (rule rtrim_indent)
  then show ?thesis
    using js_trim_prompt[of l "'' '' @ s @ ''\<newline>'' @ ''    ''"] assms
    by (simp add: promptText_def prompt_template_def)
qed

lemma promptText_fails:
  "promptText va sy = Inl f \<longleftrightarrow>
     vision_label va = Inl f \<or> (\<exists>l. vision_label va = Inr l) \<and> symptoms_text sy = Inl f"
  by (auto simp: promptText_def prompt_template_def split: sum.splits)

lemma example_prompt_built:
  "promptText JNull (JArr [JStr ''itching'', JStr ''redness'']) = Inr example_prompt"
proof -
  have "vision_label JNull = Inr ''unknown''"
    by (simp add: vision_label_def opt_prop_def nullish_def js_or_def)
  moreover have "symptoms_text (JArr [JStr ''itching'', JStr ''redness'']) =
      Inr ''itching,redness''"
    by (simp add: symptoms_text_def js_or_def)
  ultimately show ?thesis
    by (simp add: promptText_shape example_prompt_def is_ws_def)
qed

lemma example_facts:
  "apiKey_of example_env = Some ''secret''"
  "\<not> nullish example_body"
  "js_prop example_body ''image'' = JStr example_image"
  "example_image \<noteq> []"
  "promptText (js_prop example_body ''visionAnalysis'') (js_prop example_body ''symptoms'')
     = Inr example_prompt"
  "example_payload = build_payload example_image example_prompt"
  using example_prompt_built
  by (simp_all add: apiKey_of_def example_env_def nullish_def example_body_def js_prop_def
        example_image_def example_payload_def)

lemma gemini_text_reply_text [simp]:
  "candidate_text (gemini_text_reply t) = JStr t"
  by (simp add: candidate_text_def gemini_text_reply_def js_prop_def opt_index0_def opt_prop_def
        nullish_def js_index0_def)

lemma gemini_reply_not_nullish [simp]:
  "\<not> nullish (gemini_text_reply t)" "\<not> nullish (gemini_error_reply m)"
  by (simp_all add: nullish_def gemini_text_reply_def gemini_error_reply_def)

lemma example_net_outcomes:
  "i < 2 \<Longrightarrow> extractable_text (example_net i r) = None"
  "extractable_text (example_net 2 r) = Some (JStr ''Likely eczema'')"
  by (auto simp: extractable_text_def example_net_def)

lemma example_issued:
  "snd (POST_with MODELS_TO_TRY example_tem example_env (Body example_body) example_net) =
     map (request_for ''secret'' example_payload)
       [''gemini-2.0-flash'', ''gemini-2.0-pro'', ''gemini-1.5-flash'']"
proof -
  have len: "2 < length MODELS_TO_TRY"
    and tk: "take 3 MODELS_TO_TRY =
               [''gemini-2.0-flash'', ''gemini-2.0-pro'', ''gemini-1.5-flash'']"
    by (simp_all add: MODELS_TO_TRY_def)
  have "try_models example_tem example_net ''secret'' example_payload MODELS_TO_TRY
          (JStr ''Unknown error'') [] =
     (Returned (JsonResponse 200 (ResultBody (JStr ''Likely eczema''))),
      [] @ map (request_for ''secret'' example_payload) (take (Suc 2) MODELS_TO_TRY))"
  proof (rule try_models_success[OF len])
    show "\<forall>i<2. extractable_text
        (example_net (length ([]::fetch_request list) + i)
           (request_for ''secret'' example_payload (MODELS_TO_TRY ! i))) = None"
      by (simp add: example_net_outcomes)
    show "extractable_text
        (example_net (length ([]::fetch_request list) + 2)
           (request_for ''secret'' example_payload (MODELS_TO_TRY ! 2)))
        = Some (JStr ''Likely eczema'')"
      using example_net_outcomes(2) by (simp add: numeral_2_eq_2)
  qed
  then have "dispatch example_tem example_net ''secret'' example_payload MODELS_TO_TRY =
     (JsonResponse 200 (ResultBody (JStr ''Likely eczema'')),
      map (request_for ''secret'' example_payload) (take (Suc 2) MODELS_TO_TRY))"
    by (simp add: dispatch_def)
  then have "POST_with MODELS_TO_TRY example_tem example_env (Body example_body) example_net =
     (JsonResponse 200 (ResultBody (JStr ''Likely eczema'')),
      map (request_for ''secret'' example_payload) (take (Suc 2) MODELS_TO_TRY))"
    using POST_with_dispatch[where env = example_env and key = "''secret''"
        and b = example_body and img = example_image and models = MODELS_TO_TRY
        and tem = example_tem and net = example_net and p = example_prompt] example_facts
    by simp
  then show ?thesis by (simp add: tk)
qed


text \<open>
  Claim C1. Whatever the list of candidate models, the credential and the payload: if the
  first \<open>K - 1\<close> candidates fail (transport error, backend error status, or no extractable
  text) and the \<open>K\<close>-th answers with extractable text \<open>t\<close>, then the loop ends by returning
  the response 200 with \<open>t\<close> as its result, and the requests issued are exactly the requests
  for the first \<open>K\<close> candidates, in list order, each to the URL of its model: \<open>K\<close> attempts,
  none for a later candidate. The same holds of lines 75 to 118 as a whole and, for a request that reaches the loop
  (credential configured, image a non-empty string, prompt built), of the endpoint.
\<close>

theorem dispatcher_first_success:
  assumes "1 \<le> K" "K \<le> length models"
    and "\<forall>i<K - 1. extractable_text (net i (request_for key pl (models ! i))) = None"
    and "extractable_text (net (K - 1) (request_for key pl (models ! (K - 1)))) = Some t"
  shows "try_models tem net key pl models le [] =
           (Returned (JsonResponse 200 (ResultBody t)), map (request_for key pl) (take K models))
         \<and> dispatch tem net key pl models =
           (JsonResponse 200 (ResultBody t), map (request_for key pl) (take K models))
         \<and> length (snd (dispatch tem net key pl models)) = K
         \<and> map url (snd (dispatch tem net key pl models)) =
             map (\<lambda>modelName. ''https://generativelanguage.googleapis.com/v1/models/''
                    @ modelName @ '':generateContent?key='' @ key) (take K models)
         \<and> (apiKey_of env = Some key \<and> key \<noteq> [] \<and> \<not> nullish b
              \<and> js_prop b ''image'' = JStr img \<and> img \<noteq> []
              \<and> promptText (js_prop b ''visionAnalysis'') (js_prop b ''symptoms'') = Inr p
              \<and> pl = build_payload img p \<longrightarrow>
            POST_with models tem env (Body b) net =
              (JsonResponse 200 (ResultBody t), map (request_for key pl) (take K models)))"
proof -
  have k: "K - 1 < length models" "Suc (K - 1) = K" using assms(1,2) by auto
  have loop: "try_models tem net key pl models le' [] =
     (Returned (JsonResponse 200 (ResultBody t)),
      map (request_for key pl) (take K models))" for le'
    using try_models_success[where issued = "[]" and ms = models and net = net and key = key
        and pl = pl and tem = tem and le = le' and k = "K - 1" and t = t]
      assms(3,4) k
    by simp
  then have d: "dispatch tem net key pl models =
           (JsonResponse 200 (ResultBody t), map (request_for key pl) (take K models))"
    by (simp add: dispatch_def)
  have "POST_with models tem env (Body b) net =
              (JsonResponse 200 (ResultBody t), map (request_for key pl) (take K models))"
    if "apiKey_of env = Some key \<and> key \<noteq> [] \<and> \<not> nullish b
              \<and> js_prop b ''image'' = JStr img \<and> img \<noteq> []
              \<and> promptText (js_prop b ''visionAnalysis'') (js_prop b ''symptoms'') = Inr p
              \<and> pl = build_payload img p"
    using that d
      POST_with_dispatch[where env = env and key = key and b = b and img = img and p = p
        and models = models and tem = tem and net = net]
    by simp
  moreover have "map url (map (request_for key pl) (take K models)) =
             map (\<lambda>modelName. ''https://generativelanguage.googleapis.com/v1/models/''
                    @ modelName @ '':generateContent?key='' @ key) (take K models)"
    by (simp add: request_for_def model_url_def comp_def)
  ultimately show ?thesis using loop d assms(2) by simp
qed

text \<open>
  On the fixed list of the source, with a network whose first candidate is unreachable, whose
  second reports an error and whose third answers: three requests, the third text returned.
\<close>

theorem dispatcher_first_success_witness:
  "POST example_tem example_env (Body example_body) example_net =
     (JsonResponse 200 (ResultBody (JStr ''Likely eczema'')),
      map (request_for ''secret'' example_payload)
        [''gemini-2.0-flash'', ''gemini-2.0-pro'', ''gemini-1.5-flash''])
   \<and> length (snd (dispatch example_tem example_net ''secret'' example_payload MODELS_TO_TRY)) = 3"
proof -
  have "(1::nat) \<le> 3" "3 \<le> length MODELS_TO_TRY" "''secret'' \<noteq> []"
    by (simp_all add: MODELS_TO_TRY_def)
  moreover have "\<forall>i<3 - 1. extractable_text
        (example_net i (request_for ''secret'' example_payload (MODELS_TO_TRY ! i))) = None"
    and "extractable_text
        (example_net (3 - 1) (request_for ''secret'' example_payload (MODELS_TO_TRY ! (3 - 1))))
      = Some (JStr ''Likely eczema'')"
    by (simp_all add: example_net_outcomes)
  ultimately have h: "(1::nat) \<le> 3 \<and> 3 \<le> length MODELS_TO_TRY \<and> ''secret'' \<noteq> []
     \<and> (\<forall>i<3 - 1. extractable_text
        (example_net i (request_for ''secret'' example_payload (MODELS_TO_TRY ! i))) = None)
     \<and> extractable_text
        (example_net (3 - 1) (request_for ''secret'' example_payload (MODELS_TO_TRY ! (3 - 1))))
      = Some (JStr ''Likely eczema'')"
    by blast
  with example_facts
    dispatcher_first_success[where env = example_env and key = "''secret''"
      and b = example_body and img = example_image and pl = example_payload and K = 3
      and models = MODELS_TO_TRY and net = example_net and t = "JStr ''Likely eczema''"
      and tem = example_tem and p = example_prompt]
  have "POST_with MODELS_TO_TRY example_tem example_env (Body example_body) example_net =
           (JsonResponse 200 (ResultBody (JStr ''Likely eczema'')),
            map (request_for ''secret'' example_payload) (take 3 MODELS_TO_TRY))
         \<and> length (snd (dispatch example_tem example_net ''secret'' example_payload
              MODELS_TO_TRY)) = 3"
    by blast
  then show ?thesis by (simp add: POST_def MODELS_TO_TRY_def)
qed

text \<open>
  Claim C3. If every candidate of a non-empty list fails, lines 75 to 118 answer 503, and the
  error they report is the fixed prefix followed by the failure message of the last
  candidate alone; every candidate was attempted once, in list order, at the URL of its
  model. (Over the empty list the message is the initial \<^verbatim>\<open>Unknown error\<close>.) So does the
  endpoint, for a request that reaches the loop.
\<close>

theorem dispatcher_all_exhausted:
  assumes "models \<noteq> []"
    and "\<forall>i<length models. extractable_text (net i (request_for key pl (models ! i))) = None"
  shows "dispatch tem net key pl models =
           (JsonResponse 503
              (ErrorBody (''All Gemini models failed. Last error: '' @
                 failure_reason tem
                    (net (length models - 1) (request_for key pl (last models))))),
            map (request_for key pl) models)
         \<and> map url (snd (dispatch tem net key pl models)) =
             map (\<lambda>modelName. ''https://generativelanguage.googleapis.com/v1/models/''
                    @ modelName @ '':generateContent?key='' @ key) models
         \<and> dispatch tem net key pl [] =
             (JsonResponse 503
                (ErrorBody ''All Gemini models failed. Last error: Unknown error''), [])
         \<and> (apiKey_of env = Some key \<and> key \<noteq> [] \<and> \<not> nullish b
              \<and> js_prop b ''image'' = JStr img \<and> img \<noteq> []
              \<and> promptText (js_prop b ''visionAnalysis'') (js_prop b ''symptoms'') = Inr p
              \<and> pl = build_payload img p \<longrightarrow>
            POST_with models tem env (Body b) net =
              (JsonResponse 503
                 (ErrorBody (''All Gemini models failed. Last error: '' @
                    failure_reason tem
                       (net (length models - 1) (request_for key pl (last models))))),
               map (request_for key pl) models))"
proof -
  from assms
    try_models_exhausted[where issued = "[]" and ms = models and net = net and key = key
        and pl = pl and tem = tem and le = "JStr ''Unknown error''"]
  obtain e where e: "js_to_string e =
          Inr (failure_reason tem (net (length models - 1) (request_for key pl (last models))))"
    and loop: "try_models tem net key pl models (JStr ''Unknown error'') [] =
          (Exhausted e, map (request_for key pl) models)"
    by auto
  then have d: "dispatch tem net key pl models =
           (JsonResponse 503
              (ErrorBody (''All Gemini models failed. Last error: '' @
                 failure_reason tem
                    (net (length models - 1) (request_for key pl (last models))))),
            map (request_for key pl) models)"
    by (simp add: dispatch_def)
  show ?thesis
  proof (intro conjI impI)
    show "dispatch tem net key pl models =
           (JsonResponse 503
              (ErrorBody (''All Gemini models failed. Last error: '' @
                 failure_reason tem
                    (net (length models - 1) (request_for key pl (last models))))),
            map (request_for key pl) models)"
      by (rule d)
  next
    show "map url (snd (dispatch tem net key pl models)) =
             map (\<lambda>modelName. ''https://generativelanguage.googleapis.com/v1/models/''
                    @ modelName @ '':generateContent?key='' @ key) models"
      by (simp add: d request_for_def model_url_def comp_def)
  next
    show "dispatch tem net key pl [] =
             (JsonResponse 503
                (ErrorBody ''All Gemini models failed. Last error: Unknown error''), [])"
      by (simp add: dispatch_def)
  next
    assume "apiKey_of env = Some key \<and> key \<noteq> [] \<and> \<not> nullish b
              \<and> js_prop b ''image'' = JStr img \<and> img \<noteq> []
              \<and> promptText (js_prop b ''visionAnalysis'') (js_prop b ''symptoms'') = Inr p
              \<and> pl = build_payload img p"
    then have "POST_with models tem env (Body b) net = dispatch tem net key pl models"
      using POST_with_dispatch[where env = env and key = key and b = b and img = img
          and p = p and models = models and tem = tem and net = net]
      by simp
    then show "POST_with models tem env (Body b) net =
              (JsonResponse 503
                 (ErrorBody (''All Gemini models failed. Last error: '' @
                    failure_reason tem
                       (net (length models - 1) (request_for key pl (last models))))),
               map (request_for key pl) models)"
      by (simp only: d)
  qed
qed

text \<open>
  On the fixed list, with three unreachable candidates and a fourth that reports
  \<^verbatim>\<open>model overloaded\<close>: the diagnostic is that last message, not \<^verbatim>\<open>fetch failed\<close>. And when
  the message of the fourth is an object that cannot be converted to a string, the diagnostic
  is the message of the error that the conversion raised for that candidate.
\<close>

theorem dispatcher_all_exhausted_witness:
  "POST example_tem example_env (Body example_body) failing_net =
     (JsonResponse 503
        (ErrorBody ''All Gemini models failed. Last error: model overloaded''),
      map (request_for ''secret'' example_payload) MODELS_TO_TRY)
   \<and> dispatch example_tem odd_net ''secret'' example_payload MODELS_TO_TRY =
     (JsonResponse 503
        (ErrorBody
           ''All Gemini models failed. Last error: Cannot convert object to primitive value''),
      map (request_for ''secret'' example_payload) MODELS_TO_TRY)"
proof -
  have fails: "\<forall>i<length MODELS_TO_TRY. extractable_text
        (failing_net i (request_for ''secret'' example_payload (MODELS_TO_TRY ! i))) = None"
    by (auto simp: extractable_text_def failing_net_def)
  have fails': "\<forall>i<length MODELS_TO_TRY. extractable_text
        (odd_net i (request_for ''secret'' example_payload (MODELS_TO_TRY ! i))) = None"
    by (auto simp: extractable_text_def odd_net_def)
  have ne: "MODELS_TO_TRY \<noteq> []" "''secret'' \<noteq> []" by (simp_all add: MODELS_TO_TRY_def)
  with fails example_facts
    dispatcher_all_exhausted[where env = example_env and key = "''secret''"
      and b = example_body and img = example_image and pl = example_payload
      and models = MODELS_TO_TRY and net = failing_net and tem = example_tem
      and p = example_prompt]
  have a: "POST_with MODELS_TO_TRY example_tem example_env (Body example_body) failing_net =
           (JsonResponse 503
              (ErrorBody (''All Gemini models failed. Last error: '' @
                 failure_reason example_tem
                    (failing_net (length MODELS_TO_TRY - 1)
                       (request_for ''secret'' example_payload (last MODELS_TO_TRY))))),
            map (request_for ''secret'' example_payload) MODELS_TO_TRY)"
    by blast
  from ne fails'
    dispatcher_all_exhausted[where key = "''secret''" and pl = example_payload
      and models = MODELS_TO_TRY and net = odd_net and tem = example_tem]
  have b: "dispatch example_tem odd_net ''secret'' example_payload MODELS_TO_TRY =
           (JsonResponse 503
              (ErrorBody (''All Gemini models failed. Last error: '' @
                 failure_reason example_tem
                    (odd_net (length MODELS_TO_TRY - 1)
                       (request_for ''secret'' example_payload (last MODELS_TO_TRY))))),
            map (request_for ''secret'' example_payload) MODELS_TO_TRY)"
    by blast
  have r1: "failure_reason example_tem
                    (failing_net (length MODELS_TO_TRY - 1)
                       (request_for ''secret'' example_payload (last MODELS_TO_TRY)))
            = ''model overloaded''"
    by (simp add: MODELS_TO_TRY_def failing_net_def failure_reason_def
          gemini_error_reply_def js_prop_def opt_prop_def nullish_def js_or_def)
  have r2: "failure_reason example_tem
                    (odd_net (length MODELS_TO_TRY - 1)
                       (request_for ''secret'' example_payload (last MODELS_TO_TRY)))
            = ''Cannot convert object to primitive value''"
    by (simp add: MODELS_TO_TRY_def odd_net_def failure_reason_def
          js_prop_def opt_prop_def nullish_def js_or_def)
  from a b show ?thesis unfolding r1 r2
    by (simp add: POST_def)
qed

text \<open>
  Claim C4, as the code has it. Without a configured credential the endpoint answers 500
  with \<^verbatim>\<open>Missing GEMINI_API_KEY\<close>, whatever the request, and issues no request to the
  backend. With a credential, a request whose body cannot be parsed, or whose body is
  \<^verbatim>\<open>null\<close>, has no image either, but it is answered 500 by the outer \<^verbatim>\<open>catch\<close>; a request
  whose body is any other JSON value with no \<^verbatim>\<open>image\<close> or an empty one (any falsy value) is
  answered 400 with \<^verbatim>\<open>Image not provided\<close>. In all four cases no request reaches the
  backend.
\<close>

theorem endpoint_preconditions:
  "(\<not> credential_configured env \<longrightarrow>
      POST tem env req net = (JsonResponse 500 (ErrorBody ''Missing GEMINI_API_KEY''), []))
   \<and> (credential_configured env \<longrightarrow>
      POST tem env (BodyThrew msg) net =
        (JsonResponse 500 (ErrorBody (''Internal server error: '' @ msg)), []))
   \<and> (credential_configured env \<and> nullish b \<longrightarrow>
      POST tem env (Body b) net =
        (JsonResponse 500
           (ErrorBody (''Internal server error: '' @ tem (CannotDestructure b))), []))
   \<and> (credential_configured env \<and> \<not> nullish b \<and> \<not> js_truthy (js_prop b ''image'') \<longrightarrow>
      POST tem env (Body b) net = (JsonResponse 400 (ErrorBody ''Image not provided''), []))"
proof (intro conjI impI)
  assume "\<not> credential_configured env"
  then show "POST tem env req net = (JsonResponse 500 (ErrorBody ''Missing GEMINI_API_KEY''), [])"
    using apiKey_of_missing[of env] by (auto simp: POST_def POST_with_def)
next
  assume "credential_configured env"
  then obtain k where "apiKey_of env = Some k" "k \<noteq> []"
    using apiKey_of_configured by blast
  then show "POST tem env (BodyThrew msg) net =
        (JsonResponse 500 (ErrorBody (''Internal server error: '' @ msg)), [])"
    by (simp add: POST_def POST_with_def internal_error_def)
next
  assume a: "credential_configured env \<and> nullish b"
  then obtain k where "apiKey_of env = Some k" "k \<noteq> []"
    using apiKey_of_configured by blast
  with a show "POST tem env (Body b) net =
        (JsonResponse 500
           (ErrorBody (''Internal server error: '' @ tem (CannotDestructure b))), [])"
    by (simp add: POST_def POST_with_def internal_error_def)
next
  assume a: "credential_configured env \<and> \<not> nullish b \<and> \<not> js_truthy (js_prop b ''image'')"
  then obtain k where "apiKey_of env = Some k" "k \<noteq> []"
    using apiKey_of_configured by blast
  with a show "POST tem env (Body b) net = (JsonResponse 400 (ErrorBody ''Image not provided''), [])"
    by (simp add: POST_def POST_with_def Let_def)
qed

text \<open>
  An environment with one variable unset and the other empty; and, with a credential, a body
  that does not parse, the body \<^verbatim>\<open>null\<close>, a body whose image is the empty string and a body
  without an image.
\<close>

theorem endpoint_preconditions_witness:
  "\<not> credential_configured \<lparr>GEMINI_API_KEY = None, GOOGLE_GEMINI_API_KEY = Some []\<rparr>
   \<and> POST example_tem \<lparr>GEMINI_API_KEY = None, GOOGLE_GEMINI_API_KEY = Some []\<rparr>
        (Body example_body) example_net
      = (JsonResponse 500 (ErrorBody ''Missing GEMINI_API_KEY''), [])
   \<and> credential_configured example_env
   \<and> POST example_tem example_env (BodyThrew ''Unexpected end of JSON input'') example_net
      = (JsonResponse 500
           (ErrorBody ''Internal server error: Unexpected end of JSON input''), [])
   \<and> POST example_tem example_env (Body JNull) example_net
      = (JsonResponse 500
           (ErrorBody ''Internal server error: Cannot destructure the body''), [])
   \<and> POST example_tem example_env
        (Body (JObj [(''image'', JStr []), (''symptoms'', JStr ''itching'')])) example_net
      = (JsonResponse 400 (ErrorBody ''Image not provided''), [])
   \<and> POST example_tem example_env (Body (JObj [(''symptoms'', JStr ''itching'')])) example_net
      = (JsonResponse 400 (ErrorBody ''Image not provided''), [])"
  using endpoint_preconditions[where
          env = "\<lparr>GEMINI_API_KEY = None, GOOGLE_GEMINI_API_KEY = Some []\<rparr>"
          and tem = example_tem and req = "Body example_body" and net = example_net]
        endpoint_preconditions[where env = example_env
          and b = "JObj [(''image'', JStr []), (''symptoms'', JStr ''itching'')]"
          and tem = example_tem and net = example_net]
        endpoint_preconditions[where env = example_env
          and b = "JObj [(''symptoms'', JStr ''itching'')]"
          and tem = example_tem and net = example_net]
        endpoint_preconditions[where env = example_env and b = JNull
          and msg = "''Unexpected end of JSON input''"
          and tem = example_tem and net = example_net]
  by (simp add: credential_configured_def example_env_def nullish_def js_prop_def)

text \<open>
  Not every request without an image is answered 400. With a credential configured, the
  request whose body is the JSON text \<^verbatim>\<open>null\<close> and the request whose body is empty carry no
  image, and both are answered 500.
\<close>

theorem bodyless_request_counterexample:
  "credential_configured example_env
   \<and> POST example_tem example_env (Body JNull) example_net =
       (JsonResponse 500 (ErrorBody ''Internal server error: Cannot destructure the body''), [])
   \<and> POST example_tem example_env (BodyThrew ''Unexpected end of JSON input'') example_net =
       (JsonResponse 500
          (ErrorBody ''Internal server error: Unexpected end of JSON input''), [])"
  by (simp add: credential_configured_def example_env_def POST_def POST_with_def apiKey_of_def
        nullish_def internal_error_def)


text \<open>
  Claim C7. The label is interpolated as \<^verbatim>\<open>unknown\<close> when the classification result is absent
  (\<^verbatim>\<open>undefined\<close> or \<^verbatim>\<open>null\<close>) or its label is falsy, and otherwise as the string form of the
  label; the symptoms as \<^verbatim>\<open>not provided\<close> when they are absent, and as their own string form
  when they are truthy. The prompt is the fixed text followed by the line of the label and
  the line of the symptoms, trimmed. With both absent it is that text ending in the two
  defaults; with the label \<^verbatim>\<open>mole\<close> and the symptoms \<^verbatim>\<open>bleeding\<close> it ends in these. Every
  request that one call of the endpoint issues carries the same payload, whose text is the
  one prompt built from the body of the call; when the prompt cannot be built, no request
  is issued.
\<close>

theorem one_prompt_per_request:
  "(nullish va \<longrightarrow> vision_label va = Inr ''unknown'')
   \<and> (\<not> nullish va \<and> \<not> js_truthy (js_prop va ''label'') \<longrightarrow> vision_label va = Inr ''unknown'')
   \<and> (\<not> nullish va \<and> js_truthy (js_prop va ''label'') \<longrightarrow>
        vision_label va = js_to_string (js_prop va ''label''))
   \<and> vision_label (JObj [(''label'', JStr l)]) = Inr (if l = [] then ''unknown'' else l)
   \<and> (nullish sy \<longrightarrow> symptoms_text sy = Inr ''not provided'')
   \<and> (js_truthy sy \<longrightarrow> symptoms_text sy = js_to_string sy)
   \<and> symptoms_text (JStr s) = Inr (if s = [] then ''not provided'' else s)
   \<and> (vision_label va = Inr shown \<and> symptoms_text sy = Inr described \<longrightarrow>
        promptText va sy =
          Inr (prompt_head @ ''VISION AI result: '' @ shown @ ''\<newline>'' @ ''User symptoms:'' @
                 rev (dropWhile is_ws (rev ('' '' @ described)))))
   \<and> promptText JUndefined JUndefined =
        Inr (''You are a dermatology assistant AI.  \<newline>'' @
             ''Analyze this skin image and provide:\<newline>'' @
             ''\<newline>'' @
             ''1. **Likely condition(s)**  \<newline>'' @
             ''2. **Risk level**  \<newline>'' @
             ''3. **Whether the user should see a doctor**  \<newline>'' @
             ''4. **Possible causes**  \<newline>'' @
             ''5. **Non-medical general advice**\<newline>'' @
             ''\<newline>'' @
             ''DO NOT give medical diagnosis. Give safe recommendations.\<newline>'' @
             ''\<newline>'' @
             ''VISION AI result: unknown\<newline>'' @
             ''User symptoms: not provided'')
   \<and> promptText (JObj [(''label'', JStr ''mole'')]) (JStr ''bleeding'') =
        Inr (prompt_head @ ''VISION AI result: mole\<newline>'' @ ''User symptoms: bleeding'')
   \<and> (\<forall>r \<in> set (snd (POST_with models tem env (Body b) net)).
        (\<exists>img p. js_prop b ''image'' = JStr img
           \<and> promptText (js_prop b ''visionAnalysis'') (js_prop b ''symptoms'') = Inr p
           \<and> body r = \<lparr>text_part = p, mime_type = mimeType img, inline_data = base64Data img\<rparr>)
        \<and> (\<forall>r' \<in> set (snd (POST_with models tem env (Body b) net)). body r' = body r))
   \<and> (promptText (js_prop b ''visionAnalysis'') (js_prop b ''symptoms'') = Inl f \<longrightarrow>
        snd (POST_with models tem env (Body b) net) = [])"
proof (intro conjI impI ballI)
  assume "nullish va"
  then show "vision_label va = Inr ''unknown''"
    by (simp add: vision_label_def opt_prop_def js_or_def)
next
  assume "\<not> nullish va \<and> \<not> js_truthy (js_prop va ''label'')"
  then show "vision_label va = Inr ''unknown''"
    by (simp add: vision_label_def opt_prop_def js_or_def)
next
  assume "\<not> nullish va \<and> js_truthy (js_prop va ''label'')"
  then show "vision_label va = js_to_string (js_prop va ''label'')"
    by (simp add: vision_label_def opt_prop_def js_or_def)
next
  show "vision_label (JObj [(''label'', JStr l)]) = Inr (if l = [] then ''unknown'' else l)"
    by (simp add: vision_label_def opt_prop_def js_or_def nullish_def js_prop_def)
next
  assume "nullish sy"
  then show "symptoms_text sy = Inr ''not provided''"
    by (auto simp: symptoms_text_def js_or_def nullish_def)
next
  assume "js_truthy sy"
  then show "symptoms_text sy = js_to_string sy"
    by (simp add: symptoms_text_def js_or_def)
next
  show "symptoms_text (JStr s) = Inr (if s = [] then ''not provided'' else s)"
    by (simp add: symptoms_text_def js_or_def)
next
  assume "vision_label va = Inr shown \<and> symptoms_text sy = Inr described"
  then show "promptText va sy =
          Inr (prompt_head @ ''VISION AI result: '' @ shown @ ''\<newline>'' @ ''User symptoms:'' @
                 rev (dropWhile is_ws (rev ('' '' @ described))))"
    by (simp add: promptText_shape)
next
  have "vision_label JUndefined = Inr ''unknown''"
    "symptoms_text JUndefined = Inr ''not provided''"
    by (simp_all add: vision_label_def symptoms_text_def opt_prop_def js_or_def nullish_def)
  then have "promptText JUndefined JUndefined =
      Inr (prompt_head @ ''VISION AI result: unknown\<newline>'' @ ''User symptoms: not provided'')"
    by (simp add: promptText_shape is_ws_def)
  then show "promptText JUndefined JUndefined =
        Inr (''You are a dermatology assistant AI.  \<newline>'' @
             ''Analyze this skin image and provide:\<newline>'' @
             ''\<newline>'' @
             ''1. **Likely condition(s)**  \<newline>'' @
             ''2. **Risk level**  \<newline>'' @
             ''3. **Whether the user should see a doctor**  \<newline>'' @
             ''4. **Possible causes**  \<newline>'' @
             ''5. **Non-medical general advice**\<newline>'' @
             ''\<newline>'' @
             ''DO NOT give medical diagnosis. Give safe recommendations.\<newline>'' @
             ''\<newline>'' @
             ''VISION AI result: unknown\<newline>'' @
             ''User symptoms: not provided'')"
    by (simp add: prompt_head_def)
next
  have "vision_label (JObj [(''label'', JStr ''mole'')]) = Inr ''mole''"
    "symptoms_text (JStr ''bleeding'') = Inr ''bleeding''"
    by (simp_all add: vision_label_def symptoms_text_def opt_prop_def js_or_def nullish_def
          js_prop_def)
  then show "promptText (JObj [(''label'', JStr ''mole'')]) (JStr ''bleeding'') =
        Inr (prompt_head @ ''VISION AI result: mole\<newline>'' @ ''User symptoms: bleeding'')"
    by (simp add: promptText_shape is_ws_def)
next
  fix r assume "r \<in> set (snd (POST_with models tem env (Body b) net))"
  then show "\<exists>img p. js_prop b ''image'' = JStr img
           \<and> promptText (js_prop b ''visionAnalysis'') (js_prop b ''symptoms'') = Inr p
           \<and> body r = \<lparr>text_part = p, mime_type = mimeType img, inline_data = base64Data img\<rparr>"
    by (rule POST_with_bodies)
next
  fix r r'
  assume "r \<in> set (snd (POST_with models tem env (Body b) net))"
     and "r' \<in> set (snd (POST_with models tem env (Body b) net))"
  then show "body r' = body r"
    by (auto dest!: POST_with_bodies)
next
  assume "promptText (js_prop b ''visionAnalysis'') (js_prop b ''symptoms'') = Inl f"
  then show "snd (POST_with models tem env (Body b) net) = []"
    by (auto simp: POST_with_def Let_def split: option.splits jsvalue.splits)
qed

text \<open>
  A classification result with the label \<^verbatim>\<open>mole\<close> and one with an empty label, the symptoms
  \<^verbatim>\<open>bleeding\<close>, and the first and the third request of the three that the endpoint issues on
  the example network.
\<close>

theorem one_prompt_per_request_witness:
  "vision_label JNull = Inr ''unknown''
   \<and> vision_label mole = Inr ''mole''
   \<and> vision_label (JObj [(''label'', JStr [])]) = Inr ''unknown''
   \<and> symptoms_text JNull = Inr ''not provided''
   \<and> symptoms_text (JStr ''bleeding'') = Inr ''bleeding''
   \<and> promptText mole (JStr ''bleeding'') =
        Inr (prompt_head @ ''VISION AI result: mole\<newline>User symptoms: bleeding'')
   \<and> request_for ''secret'' example_payload ''gemini-1.5-flash''
       \<in> set (snd (POST_with MODELS_TO_TRY example_tem example_env (Body example_body)
                      example_net))
   \<and> text_part (body (request_for ''secret'' example_payload ''gemini-1.5-flash''))
       = example_prompt
   \<and> body (request_for ''secret'' example_payload ''gemini-2.0-flash'')
       = body (request_for ''secret'' example_payload ''gemini-1.5-flash'')"
proof -
  have m: "request_for ''secret'' example_payload ''gemini-1.5-flash''
       \<in> set (snd (POST_with MODELS_TO_TRY example_tem example_env (Body example_body)
                      example_net))"
    "request_for ''secret'' example_payload ''gemini-2.0-flash''
       \<in> set (snd (POST_with MODELS_TO_TRY example_tem example_env (Body example_body)
                      example_net))"
    by (simp_all add: example_issued)
  note t = one_prompt_per_request[where va = JNull and sy = JNull and models = MODELS_TO_TRY
      and tem = example_tem and env = example_env and b = example_body and net = example_net
      and l = "[]" and s = "''bleeding''"]
  note u = one_prompt_per_request[where va = mole and sy = "JStr ''bleeding''"
      and shown = "''mole''" and described = "''bleeding''"]
  have n: "nullish JNull" by (simp add: nullish_def)
  from t n have d: "vision_label JNull = Inr ''unknown''"
    "symptoms_text JNull = Inr ''not provided''"
    "vision_label (JObj [(''label'', JStr [])]) = Inr ''unknown''"
    "symptoms_text (JStr ''bleeding'') = Inr ''bleeding''"
    by simp_all
  have g: "\<not> nullish mole \<and> js_truthy (js_prop mole ''label'')"
    "js_to_string (js_prop mole ''label'') = Inr ''mole''"
    by (simp_all add: mole_def nullish_def js_prop_def)
  with u have v: "vision_label mole = Inr ''mole''" by simp
  with u d(4) have w: "promptText mole (JStr ''bleeding'') =
        Inr (prompt_head @ ''VISION AI result: mole\<newline>User symptoms: bleeding'')"
    by (simp add: is_ws_def)
  from t m have "\<exists>img p. js_prop example_body ''image'' = JStr img
           \<and> promptText (js_prop example_body ''visionAnalysis'')
                (js_prop example_body ''symptoms'') = Inr p
           \<and> body (request_for ''secret'' example_payload ''gemini-1.5-flash'')
               = \<lparr>text_part = p, mime_type = mimeType img, inline_data = base64Data img\<rparr>"
    and e: "body (request_for ''secret'' example_payload ''gemini-2.0-flash'')
       = body (request_for ''secret'' example_payload ''gemini-1.5-flash'')"
    by blast+
  then have "text_part (body (request_for ''secret'' example_payload ''gemini-1.5-flash''))
       = example_prompt"
    using example_facts(5) by auto
  with d v w m(1) e show ?thesis by simp
qed

text \<open>
  Claim C10, as the code has it. An array is truthy, so the default \<^verbatim>\<open>not provided\<close> is not
  used for it: its own string form is interpolated, which is the empty string for the empty
  array and the elements joined by commas for an array of strings. With the empty array the
  prompt ends in a line \<^verbatim>\<open>User symptoms:\<close> with nothing after it. The default is used for every
  falsy value, and a truthy value is interpolated as its own string form. A request whose
  symptoms are an array that has a string form is not rejected: with a credential, an image
  and a label that converts, its answer is 200 or 503, at least one request reaches the
  backend, and each carries the prompt with that string form. An array that has no string
  form, because an element is an object with an own \<^verbatim>\<open>toString\<close> property, makes the template
  literal throw: the request is answered 500 and no request reaches the backend.
\<close>

theorem symptoms_array_prompt:
  "js_truthy (JArr xs)
   \<and> symptoms_text (JArr xs) = js_to_string (JArr xs)
   \<and> symptoms_text (JArr []) = Inr []
   \<and> (vision_label va = Inr shown \<longrightarrow>
        promptText va (JArr []) =
          Inr (prompt_head @ ''VISION AI result: '' @ shown @ ''\<newline>'' @ ''User symptoms:''))
   \<and> symptoms_text (JArr (map JStr ss)) = Inr (js_join '','' ss)
   \<and> js_to_string (JArr [JObj ps]) =
        (if ''toString'' \<in> set (map fst ps) then Inl (CannotConvert (JObj ps))
         else Inr ''[object Object]'')
   \<and> (\<not> js_truthy sy \<longrightarrow> symptoms_text sy = Inr ''not provided'')
   \<and> (js_truthy sy \<longrightarrow> symptoms_text sy = js_to_string sy)
   \<and> (credential_configured env \<and> \<not> nullish b \<and> js_prop b ''image'' = JStr img \<and> img \<noteq> []
        \<and> js_prop b ''symptoms'' = JArr xs \<and> models \<noteq> []
        \<and> vision_label (js_prop b ''visionAnalysis'') = Inr shown
        \<and> js_to_string (JArr xs) = Inr joined \<longrightarrow>
        status (fst (POST_with models tem env (Body b) net)) \<in> {200, 503}
        \<and> snd (POST_with models tem env (Body b) net) \<noteq> []
        \<and> (\<forall>r \<in> set (snd (POST_with models tem env (Body b) net)).
              text_part (body r) =
                prompt_head @ ''VISION AI result: '' @ shown @ ''\<newline>'' @ ''User symptoms:'' @
                  rev (dropWhile is_ws (rev ('' '' @ joined)))))
   \<and> (credential_configured env \<and> \<not> nullish b \<and> js_prop b ''image'' = JStr img \<and> img \<noteq> []
        \<and> js_prop b ''symptoms'' = JArr xs
        \<and> vision_label (js_prop b ''visionAnalysis'') = Inr shown
        \<and> js_to_string (JArr xs) = Inl f \<longrightarrow>
        POST_with models tem env (Body b) net =
          (JsonResponse 500 (ErrorBody (''Internal server error: '' @ tem f)), []))"
proof (intro conjI impI)
  show "js_truthy (JArr xs)" by simp
  show "symptoms_text (JArr xs) = js_to_string (JArr xs)"
    by (simp add: symptoms_text_def js_or_def)
  show e: "symptoms_text (JArr []) = Inr []"
    by (simp add: symptoms_text_def js_or_def)
  show "symptoms_text (JArr (map JStr ss)) = Inr (js_join '','' ss)"
    using js_to_string_strings[of ss] by (simp add: symptoms_text_def js_or_def)
  show "js_to_string (JArr [JObj ps]) =
        (if ''toString'' \<in> set (map fst ps) then Inl (CannotConvert (JObj ps))
         else Inr ''[object Object]'')"
    by simp
  show "promptText va (JArr []) =
          Inr (prompt_head @ ''VISION AI result: '' @ shown @ ''\<newline>'' @ ''User symptoms:'')"
    if "vision_label va = Inr shown"
    using that e by (simp add: promptText_shape is_ws_def)
next
  assume "\<not> js_truthy sy"
  then show "symptoms_text sy = Inr ''not provided''"
    by (simp add: symptoms_text_def js_or_def)
next
  assume "js_truthy sy"
  then show "symptoms_text sy = js_to_string sy"
    by (simp add: symptoms_text_def js_or_def)
next
  assume a: "credential_configured env \<and> \<not> nullish b \<and> js_prop b ''image'' = JStr img
        \<and> img \<noteq> [] \<and> js_prop b ''symptoms'' = JArr xs \<and> models \<noteq> []
        \<and> vision_label (js_prop b ''visionAnalysis'') = Inr shown
        \<and> js_to_string (JArr xs) = Inr joined"
  then obtain key where key: "apiKey_of env = Some key" "key \<noteq> []"
    using apiKey_of_configured by blast
  let ?p = "prompt_head @ ''VISION AI result: '' @ shown @ ''\<newline>'' @ ''User symptoms:'' @
                  rev (dropWhile is_ws (rev ('' '' @ joined)))"
  have s: "symptoms_text (JArr xs) = Inr joined"
    using a by (simp add: symptoms_text_def js_or_def)
  have p: "promptText (js_prop b ''visionAnalysis'') (js_prop b ''symptoms'') = Inr ?p"
    using a s promptText_shape[of "js_prop b ''visionAnalysis''" shown "JArr xs" joined]
    by simp
  have d: "POST_with models tem env (Body b) net =
             dispatch tem net key (build_payload img ?p) models"
    using POST_with_dispatch[where env = env and key = key and b = b and img = img
              and models = models and tem = tem and net = net and p = ?p] key a p
    by simp
  show "status (fst (POST_with models tem env (Body b) net)) \<in> {200, 503}"
    unfolding d by (rule dispatch_status)
  show "snd (POST_with models tem env (Body b) net) \<noteq> []"
    unfolding d using a by (simp add: dispatch_issues)
  show "\<forall>r \<in> set (snd (POST_with models tem env (Body b) net)). text_part (body r) = ?p"
    unfolding d by (auto dest!: dispatch_bodies simp: build_payload_def)
next
  assume a: "credential_configured env \<and> \<not> nullish b \<and> js_prop b ''image'' = JStr img
        \<and> img \<noteq> [] \<and> js_prop b ''symptoms'' = JArr xs
        \<and> vision_label (js_prop b ''visionAnalysis'') = Inr shown
        \<and> js_to_string (JArr xs) = Inl f"
  then obtain key where key: "apiKey_of env = Some key" "key \<noteq> []"
    using apiKey_of_configured by blast
  have "symptoms_text (JArr xs) = Inl f"
    using a by (simp add: symptoms_text_def js_or_def)
  with a have "promptText (js_prop b ''visionAnalysis'') (js_prop b ''symptoms'') = Inl f"
    by (simp add: promptText_fails)
  then show "POST_with models tem env (Body b) net =
          (JsonResponse 500 (ErrorBody (''Internal server error: '' @ tem f)), [])"
    using POST_with_unbuilt[where env = env and key = key and b = b and img = img
              and models = models and tem = tem and net = net and f = f] key a
    by (simp add: internal_error_def)
qed

text \<open>
  The empty string is falsy and gets the default; the array \<^verbatim>\<open>["itching","redness"]\<close> of the
  example body is interpolated as \<^verbatim>\<open>itching,redness\<close>, and the request is dispatched; the
  array \<^verbatim>\<open>[{"toString":null}]\<close> has no string form, and the request is answered 500.
\<close>

theorem symptoms_array_prompt_witness:
  "symptoms_text (JStr []) = Inr ''not provided''
   \<and> symptoms_text (JStr ''itching'') = Inr ''itching''
   \<and> symptoms_text (JArr [JStr ''itching'', JStr ''redness'']) = Inr ''itching,redness''
   \<and> credential_configured example_env
   \<and> snd (POST_with MODELS_TO_TRY example_tem example_env (Body example_body) example_net) \<noteq> []
   \<and> text_part (body (request_for ''secret'' example_payload ''gemini-2.0-flash''))
       = prompt_head @ ''VISION AI result: unknown\<newline>User symptoms: itching,redness''
   \<and> js_to_string (JArr [unprintable]) = Inl (CannotConvert unprintable)
   \<and> POST_with MODELS_TO_TRY example_tem example_env (Body odd_body) example_net =
       (JsonResponse 500
          (ErrorBody ''Internal server error: Cannot convert object to primitive value''), [])"
proof -
  have m: "request_for ''secret'' example_payload ''gemini-2.0-flash''
       \<in> set (snd (POST_with MODELS_TO_TRY example_tem example_env (Body example_body)
                      example_net))"
    by (simp add: example_issued)
  have c: "credential_configured example_env"
    by (simp add: credential_configured_def example_env_def)
  have h: "\<not> nullish example_body \<and> js_prop example_body ''image'' = JStr example_image
      \<and> example_image \<noteq> []
      \<and> js_prop example_body ''symptoms'' = JArr [JStr ''itching'', JStr ''redness'']
      \<and> MODELS_TO_TRY \<noteq> []
      \<and> vision_label (js_prop example_body ''visionAnalysis'') = Inr ''unknown''
      \<and> js_to_string (JArr [JStr ''itching'', JStr ''redness'']) = Inr ''itching,redness''"
    by (simp add: nullish_def example_body_def js_prop_def example_image_def MODELS_TO_TRY_def
          vision_label_def opt_prop_def js_or_def)
  have h': "\<not> nullish odd_body \<and> js_prop odd_body ''image'' = JStr example_image
      \<and> example_image \<noteq> []
      \<and> js_prop odd_body ''symptoms'' = JArr [unprintable]
      \<and> vision_label (js_prop odd_body ''visionAnalysis'') = Inr ''unknown''
      \<and> js_to_string (JArr [unprintable]) = Inl (CannotConvert unprintable)"
    by (simp add: nullish_def odd_body_def js_prop_def example_image_def unprintable_def
          vision_label_def opt_prop_def js_or_def)
  note t1 = symptoms_array_prompt[where sy = "JStr []" and ss = "[''itching'', ''redness'']"
      and xs = "[JStr ''itching'', JStr ''redness'']" and env = example_env
      and b = example_body and img = example_image and models = MODELS_TO_TRY
      and tem = example_tem and net = example_net and shown = "''unknown''"
      and joined = "''itching,redness''"]
  note t2 = symptoms_array_prompt[where sy = "JStr ''itching''"]
  note t3 = symptoms_array_prompt[where xs = "[unprintable]" and env = example_env
      and b = odd_body and img = example_image and models = MODELS_TO_TRY
      and tem = example_tem and net = example_net and shown = "''unknown''"
      and f = "CannotConvert unprintable" and ps = "[(''toString'', JNull)]"]
  from t1 have a: "symptoms_text (JStr []) = Inr ''not provided''"
    "symptoms_text (JArr (map JStr [''itching'', ''redness''])) =
       Inr (js_join '','' [''itching'', ''redness''])"
    by simp_all
  from t2 have b: "symptoms_text (JStr ''itching'') = js_to_string (JStr ''itching'')"
    by simp
  from t1 c h have
    n: "snd (POST_with MODELS_TO_TRY example_tem example_env (Body example_body) example_net)
          \<noteq> []"
    and q: "\<forall>r \<in> set (snd (POST_with MODELS_TO_TRY example_tem example_env (Body example_body)
                      example_net)).
              text_part (body r) =
                prompt_head @ ''VISION AI result: '' @ ''unknown'' @ ''\<newline>'' @
                  ''User symptoms:'' @ rev (dropWhile is_ws (rev ('' '' @ ''itching,redness'')))"
    by blast+
  from q m have q': "text_part (body (request_for ''secret'' example_payload ''gemini-2.0-flash''))
       = prompt_head @ ''VISION AI result: '' @ ''unknown'' @ ''\<newline>'' @
                  ''User symptoms:'' @ rev (dropWhile is_ws (rev ('' '' @ ''itching,redness'')))"
    by blast
  from t3 have u: "js_to_string (JArr [unprintable]) = Inl (CannotConvert unprintable)"
    by (simp add: unprintable_def)
  from t3 c h' have r: "POST_with MODELS_TO_TRY example_tem example_env (Body odd_body)
        example_net =
       (JsonResponse 500
          (ErrorBody (''Internal server error: '' @ example_tem (CannotConvert unprintable))), [])"
    by blast
  from a b c n q' u r show ?thesis
    by (simp add: is_ws_def)
qed

text \<open>
  Not every non-empty array of symptoms is interpolated. The body whose symptoms are the
  array \<^verbatim>\<open>[{"toString":null}]\<close> comes with a credential and an image, and the endpoint answers
  500 without a request to the backend.
\<close>

theorem unprintable_symptoms_counterexample:
  "credential_configured example_env
   \<and> js_prop odd_body ''image'' = JStr ''data:image/png;base64,iVBORw0KGgo=''
   \<and> js_prop odd_body ''symptoms'' = JArr [JObj [(''toString'', JNull)]]
   \<and> POST example_tem example_env (Body odd_body) example_net =
       (JsonResponse 500
          (ErrorBody ''Internal server error: Cannot convert object to primitive value''), [])"
  by (simp add: credential_configured_def example_env_def odd_body_def js_prop_def POST_def
        POST_with_def apiKey_of_def nullish_def promptText_def prompt_template_def
        vision_label_def symptoms_text_def opt_prop_def js_or_def internal_error_def)

section \<open>Properties of the wizard\<close>

lemmas handler_defs =
  step_def navigateToScreen_def nav_timer_fired_def analyzeWithVisionAI_def vision_resolved_def
  vision_failed_def performAnalysis_def handleSymptomsChange_def proceedToResults_def
  report_timer_fired_def report_replied_def resetSession_def downloadPDF_def finish_def
  set_error_def

subsection \<open>Parsing the symptoms\<close>

lemma js_split_nonempty [simp]: "js_split sep s \<noteq> []"
  by (induction s) auto

lemma js_split_pieces: "p \<in> set (js_split sep s) \<Longrightarrow> set p \<subseteq> set s - {sep}"
proof (induction s arbitrary: p)
  case Nil
  then show ?case by simp
next
  case (Cons c cs)
  show ?case
  proof (cases "c = sep")
    case True
    with Cons show ?thesis by auto
  next
    case False
    obtain q qs where q: "js_split sep cs = q # qs"
      by (cases "js_split sep cs") auto
    with Cons.prems False have "p = c # q \<or> p \<in> set qs" by auto
    then show ?thesis
    proof
      assume "p = c # q"
      moreover have "set q \<subseteq> set cs - {sep}" using Cons.IH[of q] q by simp
      ultimately show ?thesis using False by auto
    next
      assume "p \<in> set qs"
      then have "set p \<subseteq> set cs - {sep}" using Cons.IH[of p] q by simp
      then show ?thesis by auto
    qed
  qed
qed

lemma js_split_covers: "c \<in> set s \<Longrightarrow> c \<noteq> sep \<Longrightarrow> \<exists>p \<in> set (js_split sep s). c \<in> set p"
proof (induction s)
  case Nil
  then show ?case by simp
next
  case (Cons d ds)
  obtain q qs where q: "js_split sep ds = q # qs"
    by (cases "js_split sep ds") auto
  show ?case
  proof (cases "c = d")
    case True
    with Cons.prems q show ?thesis by auto
  next
    case False
    with Cons obtain p where "p \<in> set (js_split sep ds)" "c \<in> set p" by auto
    with q show ?thesis by (cases "d = sep") auto
  qed
qed

lemma js_trim_empty_iff: "js_trim p = [] \<longleftrightarrow> (\<forall>c \<in> set p. is_ws c)"
proof
  assume "\<forall>c \<in> set p. is_ws c"
  then have d: "dropWhile is_ws p = []" by (simp add: dropWhile_eq_Nil_conv)
  show "js_trim p = []" unfolding js_trim_def d by simp
next
  assume "js_trim p = []"
  then have "\<forall>c \<in> set (dropWhile is_ws p). is_ws c"
    by (simp add: js_trim_def dropWhile_eq_Nil_conv)
  then have "dropWhile is_ws p = []"
    by (metis hd_dropWhile hd_in_set)
  then show "\<forall>c \<in> set p. is_ws c" by (simp add: dropWhile_eq_Nil_conv)
qed

lemma parse_symptoms_empty_iff:
  "parse_symptoms s = [] \<longleftrightarrow> (\<forall>c \<in> set s. c = CHR '','' \<or> is_ws c)"
proof
  assume e: "parse_symptoms s = []"
  show "\<forall>c \<in> set s. c = CHR '','' \<or> is_ws c"
  proof (intro ballI)
    fix c assume c: "c \<in> set s"
    show "c = CHR '','' \<or> is_ws c"
    proof (cases "c = CHR '',''")
      case True
      then show ?thesis by simp
    next
      case False
      with c obtain p where p: "p \<in> set (js_split CHR '','' s)" "c \<in> set p"
        using js_split_covers by blast
      from e p(1) have "js_trim p = []"
        by (auto simp: parse_symptoms_def filter_empty_conv)
      with p(2) show ?thesis by (simp add: js_trim_empty_iff)
    qed
  qed
next
  assume a: "\<forall>c \<in> set s. c = CHR '','' \<or> is_ws c"
  have "js_trim p = []" if "p \<in> set (js_split CHR '','' s)" for p
    using js_split_pieces[OF that] a by (auto simp: js_trim_empty_iff)
  then show "parse_symptoms s = []"
    by (auto simp: parse_symptoms_def filter_empty_conv)
qed

lemma parse_itching: "parse_symptoms ''itching'' = [''itching'']"
  by (simp add: parse_symptoms_def js_trim_def is_ws_def)

text \<open>
  Claim C5. \<^verbatim>\<open>proceedToResults\<close> rejects an input made of white space and commas only, such
  as \<^verbatim>\<open>" , , "\<close>: it raises the alert and changes nothing else, so no navigation and no
  request are scheduled. On \<^verbatim>\<open>"itching, redness"\<close> it raises no alert, stores the symptom list
  \<^verbatim>\<open>["itching","redness"]\<close> and schedules the navigation to the results screen. In general an
  input with any other character passes, and the stored list is the input split at the
  commas, trimmed, with the empty entries removed.
\<close>

theorem symptom_guard:
  "((\<forall>c \<in> set (symptomsInput st). c = CHR '','' \<or> is_ws c) \<longrightarrow>
      proceedToResults st = st\<lparr>alerts := alerts st @ [''Please enter at least one symptom'']\<rparr>)
   \<and> (symptomsInput st = '' , , '' \<longrightarrow>
      proceedToResults st = st\<lparr>alerts := alerts st @ [''Please enter at least one symptom'']\<rparr>)
   \<and> (symptomsInput st = ''itching, redness'' \<longrightarrow>
      symptoms (scanSession (proceedToResults st)) = [''itching'', ''redness'']
      \<and> alerts (proceedToResults st) = alerts st
      \<and> NavTimer Results \<in> set (pending (proceedToResults st)))
   \<and> ((\<exists>c \<in> set (symptomsInput st). c \<noteq> CHR '','' \<and> \<not> is_ws c) \<longrightarrow>
      symptoms (scanSession (proceedToResults st)) = parse_symptoms (symptomsInput st)
      \<and> parse_symptoms (symptomsInput st) \<noteq> []
      \<and> alerts (proceedToResults st) = alerts st
      \<and> NavTimer Results \<in> set (pending (proceedToResults st)))"
proof (intro conjI impI)
  assume "\<forall>c \<in> set (symptomsInput st). c = CHR '','' \<or> is_ws c"
  then have "parse_symptoms (symptomsInput st) = []"
    by (simp add: parse_symptoms_empty_iff)
  then show "proceedToResults st =
      st\<lparr>alerts := alerts st @ [''Please enter at least one symptom'']\<rparr>"
    by (simp add: proceedToResults_def)
next
  assume "symptomsInput st = '' , , ''"
  then have "parse_symptoms (symptomsInput st) = []"
    by (simp add: parse_symptoms_def js_trim_def is_ws_def)
  then show "proceedToResults st =
      st\<lparr>alerts := alerts st @ [''Please enter at least one symptom'']\<rparr>"
    by (simp add: proceedToResults_def)
next
  assume "symptomsInput st = ''itching, redness''"
  then have p: "parse_symptoms (symptomsInput st) = [''itching'', ''redness'']"
    by (simp add: parse_symptoms_def js_trim_def is_ws_def)
  show "symptoms (scanSession (proceedToResults st)) = [''itching'', ''redness'']"
    by (simp add: proceedToResults_def p navigateToScreen_def Let_def)
  show "alerts (proceedToResults st) = alerts st"
    by (simp add: proceedToResults_def p navigateToScreen_def Let_def)
  show "NavTimer Results \<in> set (pending (proceedToResults st))"
    by (simp add: proceedToResults_def p navigateToScreen_def Let_def)
next
  assume "\<exists>c \<in> set (symptomsInput st). c \<noteq> CHR '','' \<and> \<not> is_ws c"
  then show p: "parse_symptoms (symptomsInput st) \<noteq> []"
    using parse_symptoms_empty_iff[of "symptomsInput st"] by blast
  show "symptoms (scanSession (proceedToResults st)) = parse_symptoms (symptomsInput st)"
    using p by (simp add: proceedToResults_def navigateToScreen_def Let_def)
  show "alerts (proceedToResults st) = alerts st"
    using p by (simp add: proceedToResults_def navigateToScreen_def Let_def)
  show "NavTimer Results \<in> set (pending (proceedToResults st))"
    using p by (simp add: proceedToResults_def navigateToScreen_def Let_def)
qed

text \<open>The three inputs of the claim's kind, and \<^verbatim>\<open>"a,"\<close>, whose empty second entry is dropped.\<close>

theorem symptom_guard_witness:
  "proceedToResults (init\<lparr>symptomsInput := '',, ''\<rparr>)
       = init\<lparr>symptomsInput := '',, '', alerts := [''Please enter at least one symptom'']\<rparr>
   \<and> proceedToResults (init\<lparr>symptomsInput := '' , , ''\<rparr>)
       = init\<lparr>symptomsInput := '' , , '', alerts := [''Please enter at least one symptom'']\<rparr>
   \<and> symptoms (scanSession (proceedToResults (init\<lparr>symptomsInput := ''itching, redness''\<rparr>)))
       = [''itching'', ''redness'']
   \<and> symptoms (scanSession (proceedToResults (init\<lparr>symptomsInput := ''a,''\<rparr>))) = [''a'']"
proof -
  have p: "parse_symptoms ''a,'' = [''a'']"
    by (simp add: parse_symptoms_def js_trim_def is_ws_def)
  show ?thesis
    using symptom_guard[of "init\<lparr>symptomsInput := '',, ''\<rparr>"]
          symptom_guard[of "init\<lparr>symptomsInput := '' , , ''\<rparr>"]
          symptom_guard[of "init\<lparr>symptomsInput := ''itching, redness''\<rparr>"]
          symptom_guard[of "init\<lparr>symptomsInput := ''a,''\<rparr>"]
    by (simp add: init_def is_ws_def p)
qed

subsection \<open>The risk score\<close>

lemma step_risk_score:
  "risk_score (scanSession st) = 0 \<Longrightarrow> risk_score (scanSession (step tem st ev)) = 0"
  by (cases ev)
     (auto simp: handler_defs Let_def split: analyze_reply.splits req_json.splits)

text \<open>
  Claim C9. Whatever sequence of events the component goes through from its initial state
  (captures, classification results, submissions, replies of the endpoint, resets), the risk
  score of the session is 0.
\<close>

theorem risk_score_inert:
  "risk_score (scanSession (run tem init evs)) = 0"
proof -
  have "risk_score (scanSession st) = 0 \<Longrightarrow> risk_score (scanSession (run tem st evs)) = 0" for st
    by (induction evs arbitrary: st) (simp_all add: step_risk_score)
  then show ?thesis by (simp add: init_def empty_session_def)
qed

theorem risk_score_inert_witness:
  "risk_score (scanSession (run example_tem init
      (two_captures @ [ClickNewScan, VisionResolved ''data:B'' mole]))) = 0"
  by (rule risk_score_inert)

subsection \<open>Background calls and the session\<close>

text \<open>
  Claim C2, as the code has it. There is no generation stamp and no other guard:
  \<^verbatim>\<open>resetSession\<close> leaves an outstanding classification call outstanding, and when the call
  resolves its result is written into the session of that moment unconditionally. After a
  reset that is the fresh session, so the result of a call issued before the reset becomes
  the classification field of the session after it, the other fields staying initial.
\<close>

theorem stale_classification_write:
  "VisionCall imageSrc \<in> set (pending st) \<longrightarrow>
     VisionCall imageSrc \<in> set (pending (resetSession st))
     \<and> scanSession (resetSession st) = empty_session
     \<and> scanSession (step tem (resetSession st) (VisionResolved imageSrc data0))
         = empty_session\<lparr>vision_result := data0\<rparr>
     \<and> scanSession (step tem st (VisionResolved imageSrc data0))
         = (scanSession st)\<lparr>vision_result := data0\<rparr>"
  by (simp add: handler_defs empty_session_def)

theorem stale_classification_write_witness:
  "VisionCall ''data:B'' \<in> set (pending (run example_tem init two_captures))
   \<and> scanSession (step example_tem (resetSession (run example_tem init two_captures))
        (VisionResolved ''data:B'' mole))
       = empty_session\<lparr>vision_result := mole\<rparr>"
proof -
  have p: "VisionCall ''data:B'' \<in> set (pending (run example_tem init two_captures))"
    by (simp add: two_captures_def init_def handler_defs parse_itching Let_def)
  with stale_classification_write[of "''data:B''" "run example_tem init two_captures"
         example_tem mole]
  show ?thesis by blast
qed

text \<open>
  The guard the specification describes is not there. The user is on the results screen while the classification call
  for \<^verbatim>\<open>data:B\<close> is outstanding, and resets: the session is the empty one. The call then
  resolves, and the classification field of the new session holds its result.
\<close>

theorem reset_guard_counterexample:
  "currentScreen (run example_tem init two_captures) = Results
   \<and> VisionCall ''data:B'' \<in> set (pending (run example_tem init two_captures))
   \<and> scanSession (run example_tem init (two_captures @ [ClickNewScan])) = empty_session
   \<and> vision_result (scanSession
        (run example_tem init (two_captures @ [ClickNewScan, VisionResolved ''data:B'' mole])))
      = mole
   \<and> mole \<noteq> JNull"
  by (simp add: two_captures_def init_def handler_defs parse_itching empty_session_def mole_def
        Let_def)

text \<open>
  Claim C6, as the code has it. The button that submits the symptoms is disabled while a
  classification call is flagged as loading, so a click then does nothing. Once it is
  enabled, a submission with at least one symptom stores the symptoms, starts the navigation
  to the results screen at once, and sets the timer for the request; the body of the request
  is fixed at that moment: the captured image, the parsed symptoms and the classification
  result the session holds at submission (\<^verbatim>\<open>null\<close> when none was stored). When the timer
  fires, that body is posted, whatever the session holds by then.
\<close>

theorem submission_snapshot:
  "(isVisionLoading st \<longrightarrow> step tem st ClickGenerateReport = st)
   \<and> (currentScreen st = Triage \<and> \<not> isVisionLoading st
        \<and> parse_symptoms (symptomsInput st) \<noteq> [] \<longrightarrow>
      step tem st ClickGenerateReport =
        st\<lparr>scanSession := (scanSession st)\<lparr>symptoms := parse_symptoms (symptomsInput st)\<rparr>,
           isTransitioning := True,
           pending := pending st @
             [NavTimer Results,
              ReportTimer
                \<lparr>body_image = capturedImage st,
                 body_symptoms = parse_symptoms (symptomsInput st),
                 body_visionAnalysis = vision_result (scanSession st)\<rparr>]\<rparr>)
   \<and> (ReportTimer b \<in> set (pending st) \<longrightarrow>
        posted (step tem st (ReportTimerFired b)) = posted st @ [b])"
  by (simp add: handler_defs Let_def)

text \<open>
  While the call for \<^verbatim>\<open>data:X\<close> is outstanding the click changes nothing; after the call has
  failed the click schedules the request with \<^verbatim>\<open>visionAnalysis\<close> \<^verbatim>\<open>null\<close>, and the timer
  posts it.
\<close>

theorem submission_snapshot_witness:
  "isVisionLoading (run example_tem init early_submit)
   \<and> step example_tem (run example_tem init early_submit) ClickGenerateReport
       = run example_tem init early_submit
   \<and> currentScreen (run example_tem init classification_over) = Triage
   \<and> \<not> isVisionLoading (run example_tem init classification_over)
   \<and> parse_symptoms (symptomsInput (run example_tem init classification_over)) \<noteq> []
   \<and> pending (step example_tem (run example_tem init classification_over) ClickGenerateReport)
       = [NavTimer Results,
          ReportTimer \<lparr>body_image = Some ''data:X'', body_symptoms = [''itching''],
                       body_visionAnalysis = JNull\<rparr>]
   \<and> ReportTimer \<lparr>body_image = Some ''data:X'', body_symptoms = [''itching''],
                    body_visionAnalysis = JNull\<rparr>
       \<in> set (pending (run example_tem init (classification_over @ [ClickGenerateReport])))
   \<and> posted (step example_tem (run example_tem init (classification_over @ [ClickGenerateReport]))
        (ReportTimerFired \<lparr>body_image = Some ''data:X'', body_symptoms = [''itching''],
                            body_visionAnalysis = JNull\<rparr>))
       = [\<lparr>body_image = Some ''data:X'', body_symptoms = [''itching''],
           body_visionAnalysis = JNull\<rparr>]"
proof -
  have e: "run example_tem init early_submit =
      \<lparr>currentScreen = Triage, isTransitioning = False, isAnalyzing = False,
       isVisionLoading = True,
       scanSession = empty_session\<lparr>image_url := Some ''data:X''\<rparr>,
       capturedImage = Some ''data:X'', symptomsInput = ''itching'', alerts = [],
       pending = [VisionCall ''data:X''], posted = []\<rparr>"
    by (simp add: early_submit_def init_def handler_defs Let_def)
  have c: "run example_tem init classification_over =
      \<lparr>currentScreen = Triage, isTransitioning = False, isAnalyzing = False,
       isVisionLoading = False,
       scanSession = empty_session\<lparr>image_url := Some ''data:X''\<rparr>,
       capturedImage = Some ''data:X'', symptomsInput = ''itching'',
       alerts = [''AI Model connection failed. Continuing with basic analysis.''],
       pending = [], posted = []\<rparr>"
    by (simp add: classification_over_def init_def handler_defs Let_def)
  have c': "run example_tem init (classification_over @ [ClickGenerateReport]) =
      \<lparr>currentScreen = Triage, isTransitioning = True, isAnalyzing = False,
       isVisionLoading = False,
       scanSession = empty_session\<lparr>image_url := Some ''data:X'', symptoms := [''itching'']\<rparr>,
       capturedImage = Some ''data:X'', symptomsInput = ''itching'',
       alerts = [''AI Model connection failed. Continuing with basic analysis.''],
       pending = [NavTimer Results,
          ReportTimer \<lparr>body_image = Some ''data:X'', body_symptoms = [''itching''],
                       body_visionAnalysis = JNull\<rparr>], posted = []\<rparr>"
    by (simp add: classification_over_def init_def handler_defs Let_def parse_itching
          empty_session_def)
  show ?thesis
    using submission_snapshot[of "run example_tem init early_submit" example_tem
            "\<lparr>body_image = None, body_symptoms = [], body_visionAnalysis = JNull\<rparr>"]
          submission_snapshot[of "run example_tem init classification_over" example_tem
            "\<lparr>body_image = None, body_symptoms = [], body_visionAnalysis = JNull\<rparr>"]
          submission_snapshot[of
            "run example_tem init (classification_over @ [ClickGenerateReport])" example_tem
            "\<lparr>body_image = Some ''data:X'', body_symptoms = [''itching''],
              body_visionAnalysis = JNull\<rparr>"]
    unfolding e c c'
    by (simp add: parse_itching empty_session_def)
qed

text \<open>
  Submitting before the classification has resolved does not go as the specification
  describes. With one picture taken, a symptom typed and the classification
  call outstanding, the click on the button leaves the state as it is: no navigation is
  started and no request is scheduled, the wizard waits for the call. And where a submission
  does go through while a call is outstanding (the two captures above: the call for the
  captured image \<^verbatim>\<open>data:B\<close> has not resolved), the scheduled request carries the result of
  the earlier call, not \<^verbatim>\<open>null\<close>.
\<close>

theorem early_submission_counterexample:
  "currentScreen (run example_tem init early_submit) = Triage
   \<and> VisionCall ''data:X'' \<in> set (pending (run example_tem init early_submit))
   \<and> parse_symptoms (symptomsInput (run example_tem init early_submit)) = [''itching'']
   \<and> step example_tem (run example_tem init early_submit) ClickGenerateReport
        = run example_tem init early_submit
   \<and> NavTimer Results \<notin> set (pending
        (step example_tem (run example_tem init early_submit) ClickGenerateReport))
   \<and> capturedImage (run example_tem init two_captures) = Some ''data:B''
   \<and> VisionCall ''data:B'' \<in> set (pending (run example_tem init two_captures))
   \<and> ReportTimer \<lparr>body_image = Some ''data:B'', body_symptoms = [''itching''],
                    body_visionAnalysis = nevus\<rparr>
        \<in> set (pending (run example_tem init two_captures))
   \<and> nevus \<noteq> JNull"
  by (simp add: early_submit_def two_captures_def init_def handler_defs parse_itching Let_def
        nevus_def)

lemma show_nat_503: "show_nat 503 = ''503''"
  by code_simp

text \<open>
  Claim C8, as the code has it. Every way the request for the report can fail ends in the
  \<^verbatim>\<open>catch\<close>: \<^verbatim>\<open>fetch\<close> rejects, the status is not ok, \<^verbatim>\<open>response.json()\<close> rejects, or the body
  is \<^verbatim>\<open>null\<close>. The state after it is the state before with the message stored in the
  \<^verbatim>\<open>error\<close> field of the session and nothing else changed. Whatever the reply, the symptoms,
  the image, the classification result and the risk score of the session, the captured
  image, the input text and the screen are as before. The failure is not destructive, but
  the results screen allows no retry: of the actions of the user, none but the button for a
  new scan changes the state there, none schedules or posts a request, and that button
  resets the session, which discards the symptoms and the image.
\<close>

theorem report_failure_frame:
  "report_replied tem (FetchRejected msg) st
     = st\<lparr>scanSession := (scanSession st)\<lparr>error := Some msg\<rparr>\<rparr>
   \<and> (code < 200 \<or> 299 < code \<longrightarrow>
        report_replied tem (Responded code parsed) st
          = st\<lparr>scanSession :=
                (scanSession st)\<lparr>error := Some (''API Error: '' @ show_nat code)\<rparr>\<rparr>)
   \<and> (200 \<le> code \<and> code \<le> 299 \<longrightarrow>
        report_replied tem (Responded code (BodyThrew msg)) st
          = st\<lparr>scanSession := (scanSession st)\<lparr>error := Some msg\<rparr>\<rparr>)
   \<and> (200 \<le> code \<and> code \<le> 299 \<and> nullish data \<longrightarrow>
        report_replied tem (Responded code (Body data)) st
          = st\<lparr>scanSession :=
                (scanSession st)\<lparr>error := Some (tem (CannotRead data ''result''))\<rparr>\<rparr>)
   \<and> symptoms (scanSession (report_replied tem reply st)) = symptoms (scanSession st)
   \<and> image_url (scanSession (report_replied tem reply st)) = image_url (scanSession st)
   \<and> vision_result (scanSession (report_replied tem reply st)) = vision_result (scanSession st)
   \<and> risk_score (scanSession (report_replied tem reply st)) = risk_score (scanSession st)
   \<and> capturedImage (report_replied tem reply st) = capturedImage st
   \<and> symptomsInput (report_replied tem reply st) = symptomsInput st
   \<and> currentScreen (report_replied tem reply st) = currentScreen st
   \<and> (ReportFetch b \<in> set (pending st) \<longrightarrow>
        step tem st (ReportReplied b reply)
          = report_replied tem reply (st\<lparr>pending := remove1 (ReportFetch b) (pending st)\<rparr>))
   \<and> (currentScreen st = Results \<and> user_event ev \<longrightarrow>
        step tem st ev = st \<or> ev = ClickNewScan)
   \<and> (currentScreen st = Results \<longrightarrow> step tem st ClickNewScan = resetSession st)
   \<and> scanSession (resetSession st) = empty_session
   \<and> capturedImage (resetSession st) = None
   \<and> symptomsInput (resetSession st) = []
   \<and> posted (resetSession st) = posted st
   \<and> pending (resetSession st) = pending st @ [NavTimer Landing]"
proof -
  have frame: "report_replied tem (FetchRejected msg) st
     = st\<lparr>scanSession := (scanSession st)\<lparr>error := Some msg\<rparr>\<rparr>
   \<and> (code < 200 \<or> 299 < code \<longrightarrow>
        report_replied tem (Responded code parsed) st
          = st\<lparr>scanSession :=
                (scanSession st)\<lparr>error := Some (''API Error: '' @ show_nat code)\<rparr>\<rparr>)
   \<and> (200 \<le> code \<and> code \<le> 299 \<longrightarrow>
        report_replied tem (Responded code (BodyThrew msg)) st
          = st\<lparr>scanSession := (scanSession st)\<lparr>error := Some msg\<rparr>\<rparr>)
   \<and> (200 \<le> code \<and> code \<le> 299 \<and> nullish data \<longrightarrow>
        report_replied tem (Responded code (Body data)) st
          = st\<lparr>scanSession :=
                (scanSession st)\<lparr>error := Some (tem (CannotRead data ''result''))\<rparr>\<rparr>)
   \<and> symptoms (scanSession (report_replied tem reply st)) = symptoms (scanSession st)
   \<and> image_url (scanSession (report_replied tem reply st)) = image_url (scanSession st)
   \<and> vision_result (scanSession (report_replied tem reply st)) = vision_result (scanSession st)
   \<and> risk_score (scanSession (report_replied tem reply st)) = risk_score (scanSession st)
   \<and> capturedImage (report_replied tem reply st) = capturedImage st
   \<and> symptomsInput (report_replied tem reply st) = symptomsInput st
   \<and> currentScreen (report_replied tem reply st) = currentScreen st
   \<and> (ReportFetch b \<in> set (pending st) \<longrightarrow>
        step tem st (ReportReplied b reply)
          = report_replied tem reply (st\<lparr>pending := remove1 (ReportFetch b) (pending st)\<rparr>))"
    by (auto simp: report_replied_def set_error_def step_def finish_def
             split: analyze_reply.splits req_json.splits)
  have controls: "step tem st ev = st \<or> ev = ClickNewScan"
    if "currentScreen st = Results \<and> user_event ev"
    using that by (cases ev) (simp_all add: step_def downloadPDF_def)
  have reset: "(currentScreen st = Results \<longrightarrow> step tem st ClickNewScan = resetSession st)
   \<and> scanSession (resetSession st) = empty_session
   \<and> capturedImage (resetSession st) = None
   \<and> symptomsInput (resetSession st) = []
   \<and> posted (resetSession st) = posted st
   \<and> pending (resetSession st) = pending st @ [NavTimer Landing]"
    by (simp add: step_def resetSession_def navigateToScreen_def empty_session_def)
  from frame controls reset show ?thesis by blast
qed

text \<open>
  The endpoint answers 503 after the symptom \<^verbatim>\<open>itching\<close> was submitted: the session gets the
  error \<^verbatim>\<open>API Error: 503\<close> and keeps the symptom; on the results screen the button of the
  symptom screen does nothing.
\<close>

theorem report_failure_frame_witness:
  "report_replied example_tem
        (Responded 503 (Body (JObj [(''error'', JStr ''All Gemini models failed.'')])))
        (run example_tem init (classification_over @ [ClickGenerateReport]))
      = (run example_tem init (classification_over @ [ClickGenerateReport]))
          \<lparr>scanSession :=
             (scanSession (run example_tem init (classification_over @ [ClickGenerateReport])))
               \<lparr>error := Some ''API Error: 503''\<rparr>\<rparr>
   \<and> symptoms (scanSession (report_replied example_tem
        (Responded 503 (Body (JObj [(''error'', JStr ''All Gemini models failed.'')])))
        (run example_tem init (classification_over @ [ClickGenerateReport]))))
       = [''itching'']
   \<and> currentScreen (run example_tem init report_failed) = Results
   \<and> step example_tem (run example_tem init report_failed) ClickGenerateReport
       = run example_tem init report_failed
   \<and> step example_tem (run example_tem init report_failed) ClickNewScan
       = resetSession (run example_tem init report_failed)"
proof -
  have c: "symptoms (scanSession
        (run example_tem init (classification_over @ [ClickGenerateReport]))) = [''itching'']"
    by (simp add: classification_over_def init_def handler_defs Let_def parse_itching)
  have r: "currentScreen (run example_tem init report_failed) = Results"
    by (simp add: report_failed_def itching_body_def init_def handler_defs Let_def
          parse_itching show_nat_503 empty_session_def)
  have u: "user_event ClickGenerateReport" by simp
  note t1 = report_failure_frame[where code = 503 and tem = example_tem
            and st = "run example_tem init (classification_over @ [ClickGenerateReport])"
            and parsed = "Body (JObj [(''error'', JStr ''All Gemini models failed.'')])"
            and reply = "Responded 503 (Body (JObj [(''error'', JStr ''All Gemini models failed.'')]))"]
  note t2 = report_failure_frame[where tem = example_tem
            and st = "run example_tem init report_failed" and ev = ClickGenerateReport]
  from t2 r u have "step example_tem (run example_tem init report_failed) ClickGenerateReport
       = run example_tem init report_failed"
    and "step example_tem (run example_tem init report_failed) ClickNewScan
       = resetSession (run example_tem init report_failed)"
    by auto
  with t1 c r show ?thesis
    by (simp add: show_nat_503)
qed

text \<open>
  A failed report cannot be retried. After the 503 the user is on the results screen, the
  error is stored, and the symptom and the image are still there. The button that submitted
  the symptoms and the download button do nothing, and the one button that acts discards
  the symptom and the image without posting a request.
\<close>

theorem no_retry_counterexample:
  "currentScreen (run example_tem init report_failed) = Results
   \<and> error (scanSession (run example_tem init report_failed)) = Some ''API Error: 503''
   \<and> symptoms (scanSession (run example_tem init report_failed)) = [''itching'']
   \<and> capturedImage (run example_tem init report_failed) = Some ''data:X''
   \<and> posted (run example_tem init report_failed) = [itching_body]
   \<and> step example_tem (run example_tem init report_failed) ClickGenerateReport
       = run example_tem init report_failed
   \<and> step example_tem (run example_tem init report_failed) ClickDownloadPDF
       = run example_tem init report_failed
   \<and> symptoms (scanSession (step example_tem (run example_tem init report_failed)
        ClickNewScan)) = []
   \<and> capturedImage (step example_tem (run example_tem init report_failed) ClickNewScan) = None
   \<and> posted (step example_tem (run example_tem init report_failed) ClickNewScan)
       = [itching_body]
   \<and> pending (step example_tem (run example_tem init report_failed) ClickNewScan)
       = [NavTimer Landing]"
  by (simp add: report_failed_def itching_body_def init_def handler_defs Let_def parse_itching
        show_nat_503 empty_session_def)

end
